theory Spec2Isabelle
  imports Main
begin

section \<open>Values of the host language\<close>

text \<open>
  \<^verbatim>\<open>mergeResolvers\<close> (packages/merge/src/merge-resolvers.ts) is typed over resolver
  definitions, but at run time it inspects whatever it is handed with
  \<^verbatim>\<open>Array.isArray\<close> and \<^verbatim>\<open>typeof\<close>. The model therefore works on a type of
  JavaScript values:
  \<^item> the primitives \<open>undefined\<close>, \<open>null\<close>, booleans, numbers (integers are enough
    here: the function never computes with them) and strings;
  \<^item> \<open>Arr\<close>, an array: a Group of definitions;
  \<^item> \<open>Obj\<close>, a plain object: a Map. The association list keeps the own properties in
    insertion order (names of types and fields are not integers, which the host language
    would list first); a well-formed object has no key twice (\<open>wellFormed\<close> below);
  \<^item> \<open>Fun\<close>, a function: a Factory. A factory is called with its arguments \<open>'a\<close>
    (the array \<^verbatim>\<open>args\<close>) in a state \<open>'s\<close> of the world it may act upon, and gives
    back its result and the new state, so that the order of calls is observable.

  The values are trees: an object is known by its own properties alone. Which object
  is held where, the prototypes, and the properties of strings, arrays and functions
  are not part of this type. They matter to the loop over the exclusions only, which
  is followed here as far as trees go, on own properties of plain objects; the section
  on objects with prototypes follows the same lines on a store of objects in full, and
  the claims on what exclusions do are settled there.
\<close>

datatype ('a, 's) jsval =
    Undefined
  | Null
  | Bool bool
  | Num int
  | Str string
  | Arr "('a, 's) jsval list"
  | Obj "(string \<times> ('a, 's) jsval) list"
  | Fun "'a \<Rightarrow> 's \<Rightarrow> ('a, 's) jsval \<times> 's"

type_synonym ('a, 's) factory = "'a \<Rightarrow> 's \<Rightarrow> ('a, 's) jsval \<times> 's"

type_synonym ('a, 's) merger = "('a, 's) jsval \<Rightarrow> ('a, 's) jsval \<Rightarrow> ('a, 's) jsval"

text \<open>The operator \<^verbatim>\<open>typeof\<close>: \<open>null\<close> and arrays answer \<open>object\<close>.\<close>

fun typeof :: "('a, 's) jsval \<Rightarrow> string" where
  "typeof Undefined = ''undefined''"
| "typeof Null = ''object''"
| "typeof (Bool b) = ''boolean''"
| "typeof (Num n) = ''number''"
| "typeof (Str s) = ''string''"
| "typeof (Arr xs) = ''object''"
| "typeof (Obj kvs) = ''object''"
| "typeof (Fun f) = ''function''"

text \<open>Truthiness, as the test \<^verbatim>\<open>if (result[typeName])\<close> reads a value.\<close>

fun truthy :: "('a, 's) jsval \<Rightarrow> bool" where
  "truthy Undefined = False"
| "truthy Null = False"
| "truthy (Bool b) = b"
| "truthy (Num n) = (n \<noteq> 0)"
| "truthy (Str s) = (s \<noteq> [])"
| "truthy (Arr xs) = True"
| "truthy (Obj kvs) = True"
| "truthy (Fun f) = True"

text \<open>
  Reading a property, \<^verbatim>\<open>v[k]\<close>, among the own properties of a plain object: a
  missing property reads as \<open>undefined\<close>. (On the store, \<open>getO\<close> reads inherited
  properties and those of strings, arrays and functions as well.)
\<close>

fun getProperty :: "('a, 's) jsval \<Rightarrow> string \<Rightarrow> ('a, 's) jsval" where
  "getProperty (Obj kvs) k = (case map_of kvs k of Some v \<Rightarrow> v | None \<Rightarrow> Undefined)"
| "getProperty v k = Undefined"

text \<open>
  \<^verbatim>\<open>delete v[k]\<close> on a plain object whose properties are configurable: the property
  goes, the others keep their order. (On the store, \<open>deleteO\<close> also says when
  \<^verbatim>\<open>delete\<close> throws.)
\<close>

fun deleteProperty :: "('a, 's) jsval \<Rightarrow> string \<Rightarrow> ('a, 's) jsval" where
  "deleteProperty (Obj kvs) k = Obj (filter (\<lambda>kv. fst kv \<noteq> k) kvs)"
| "deleteProperty v k = v"

text \<open>
  \<^verbatim>\<open>delete v[t][f]\<close>: the object that \<open>v[t]\<close> refers to loses the property \<open>f\<close>;
  seen from \<open>v\<close>, the property \<open>t\<close> now holds the smaller object, at the same place.
  A tree shows the object under \<open>t\<close> only: when the same object is held elsewhere as
  well, the store is the model to read.
\<close>

fun deleteNested :: "('a, 's) jsval \<Rightarrow> string \<Rightarrow> string \<Rightarrow> ('a, 's) jsval" where
  "deleteNested (Obj kvs) t f =
     Obj (map (\<lambda>kv. if fst kv = t then (fst kv, deleteProperty (snd kv) f) else kv) kvs)"
| "deleteNested v t f = v"

text \<open>
  \<^verbatim>\<open>s.split(sep)\<close> for a one-character separator: the pieces between all
  occurrences of the separator, at least one piece.
\<close>

fun split :: "string \<Rightarrow> char \<Rightarrow> string list" where
  "split [] sep = [[]]"
| "split (c # cs) sep =
     (if c = sep then [] # split cs sep
      else (case split cs sep of
              [] \<Rightarrow> [[c]]
            | p # ps \<Rightarrow> (c # p) # ps))"

section \<open>mergeResolvers\<close>

record MergeResolversOptions =
  exclusions :: "string list option"

text \<open>
  The body of the loop over \<^verbatim>\<open>options.exclusions\<close> (lines 83 to 88). The
  destructuring \<^verbatim>\<open>[typeName, fieldName] = exclusion.split('.')\<close> takes the first two
  pieces; a piece that is not there is \<open>undefined\<close>, which as a property key reads
  \<open>''undefined''\<close>, and \<^verbatim>\<open>!fieldName\<close> holds for a missing and for an empty piece.
\<close>

definition applyExclusion :: "('a, 's) jsval \<Rightarrow> string \<Rightarrow> ('a, 's) jsval" where
  "applyExclusion result exclusion =
     (case split exclusion (CHR ''.'') of
        [] \<Rightarrow> deleteProperty result ''undefined''
      | [typeName] \<Rightarrow> deleteProperty result typeName
      | typeName # fieldName # rest \<Rightarrow>
          if fieldName = [] \<or> fieldName = ''*'' then deleteProperty result typeName
          else if truthy (getProperty result typeName) then deleteNested result typeName fieldName
          else result)"

text \<open>Lines 81 to 90: the loop runs when \<^verbatim>\<open>options\<close> and its \<^verbatim>\<open>exclusions\<close> are given.\<close>

definition applyExclusions ::
  "('a, 's) jsval \<Rightarrow> MergeResolversOptions option \<Rightarrow> ('a, 's) jsval" where
  "applyExclusions result options =
     (case options of
        None \<Rightarrow> result
      | Some opts \<Rightarrow>
          (case exclusions opts of
             None \<Rightarrow> result
           | Some exs \<Rightarrow> foldl applyExclusion result exs))"

text \<open>
  \<^verbatim>\<open>resolversFactories.map(factory => factory(...args))\<close>: the factories are called
  from left to right, each in the state its predecessor left.
\<close>

fun invokeAll ::
  "('a, 's) factory list \<Rightarrow> 'a \<Rightarrow> 's \<Rightarrow> ('a, 's) jsval list \<times> 's" where
  "invokeAll [] args s = ([], s)"
| "invokeAll (factory # factories) args s =
     (case factory args s of
        (r, s1) \<Rightarrow> (case invokeAll factories args s1 of (rs, s2) \<Rightarrow> (r # rs, s2)))"

text \<open>
  Lines 66 to 70, the classification of one (already flattened) definition: a function
  is pushed on \<^verbatim>\<open>resolversFactories\<close>, a value whose \<^verbatim>\<open>typeof\<close> is \<open>object\<close> on
  \<^verbatim>\<open>resolvers\<close>, anything else on neither.
\<close>

definition classify ::
  "('a, 's) factory list \<times> ('a, 's) jsval list \<Rightarrow> ('a, 's) jsval
     \<Rightarrow> ('a, 's) factory list \<times> ('a, 's) jsval list" where
  "classify acc resolversDefinition =
     (case resolversDefinition of
        Fun factory \<Rightarrow> (fst acc @ [factory], snd acc)
      | _ \<Rightarrow>
          if typeof resolversDefinition = ''object''
          then (fst acc, snd acc @ [resolversDefinition])
          else acc)"

text \<open>
  The measure of the recursion: the number of arrays in a value, and in a sequence of
  definitions.
\<close>

fun arrays :: "('a, 's) jsval \<Rightarrow> nat" where
  "arrays (Arr xs) = Suc (sum_list (map arrays xs))"
| "arrays v = 0"

definition nesting :: "('a, 's) jsval list \<Rightarrow> nat" where
  "nesting defs = sum_list (map arrays defs)"

text \<open>
  The function itself. \<^verbatim>\<open>mergeDeep\<close> is imported from another package
  (\<^verbatim>\<open>@graphql-tools/utils\<close>) and is the parameter \<open>md\<close>, a function of the value
  merged so far and of the current element (\<^verbatim>\<open>reduce\<close> hands its callback the index
  and the array as well; they are taken to be of no effect on the merge). So
  \<^verbatim>\<open>xs.reduce(mergeDeep, {})\<close> is \<open>foldl md (Obj []) xs\<close>. The definitions are \<open>None\<close>
  when the argument is \<open>undefined\<close> or \<open>null\<close>. The recursive calls pass no options.
  The function has no \<^verbatim>\<open>throw\<close>, and the model returns a value on every input.
\<close>

function (domintros) mergeResolvers ::
  "('a, 's) merger \<Rightarrow> ('a, 's) jsval list option \<Rightarrow> MergeResolversOptions option
     \<Rightarrow> ('a, 's) jsval" where
  "mergeResolvers md None options = Obj []"
| "mergeResolvers md (Some []) options = Obj []"
| "mergeResolvers md (Some [singleDefinition]) options =
     (case singleDefinition of
        Arr nested \<Rightarrow> mergeResolvers md (Some nested) None
      | _ \<Rightarrow> singleDefinition)"
| "mergeResolvers md (Some (d1 # d2 # ds)) options =
     (case foldl classify ([], [])
             (map (\<lambda>d. case d of Arr nested \<Rightarrow> mergeResolvers md (Some nested) None | _ \<Rightarrow> d)
                (d1 # d2 # ds)) of
        (resolversFactories, resolvers) \<Rightarrow>
          applyExclusions
            (if resolversFactories \<noteq> [] then
               Fun (\<lambda>args s.
                 case invokeAll resolversFactories args s of
                   (resultsOfFactories, s') \<Rightarrow>
                     (foldl md (Obj []) (resolvers @ resultsOfFactories), s'))
             else foldl md (Obj []) resolvers)
            options)"
  by pat_completeness auto

text \<open>
  The recursion goes from a sequence of definitions to the contents of a Group among
  them, which holds fewer arrays: every argument is in the domain of the function.
\<close>

lemma arrays_le_nesting: "d \<in> set ds \<Longrightarrow> arrays d \<le> nesting ds"
  by (induction ds) (auto simp: nesting_def)

lemma mergeResolvers_total: "mergeResolvers_dom (md, defs, options)"
proof (induction "nesting (case defs of None \<Rightarrow> [] | Some ds \<Rightarrow> ds)"
    arbitrary: defs options rule: less_induct)
  case less
  show ?case
  proof (cases defs)
    case None
    then show ?thesis by (simp add: mergeResolvers.domintros)
  next
    case (Some ds)
    show ?thesis
    proof (cases ds)
      case Nil
      with Some show ?thesis by (simp add: mergeResolvers.domintros)
    next
      case (Cons d1 rest)
      note outer = this
      show ?thesis
      proof (cases rest)
        case Nil
        have "mergeResolvers_dom (md, Some nested, None)" if "d1 = Arr nested" for nested
          using that less [of "Some nested" None] Some outer Nil by (simp add: nesting_def)
        with Some outer Nil show ?thesis by (auto intro: mergeResolvers.domintros)
      next
        case (Cons d2 ds')
        have "mergeResolvers_dom (md, Some nested, None)" if "Arr nested \<in> set ds" for nested
        proof -
          from that have "arrays (Arr nested) \<le> nesting ds"
            by (rule arrays_le_nesting)
          then show ?thesis using less [of "Some nested" None] Some by (simp add: nesting_def)
        qed
        with Some outer Cons show ?thesis by (auto intro!: mergeResolvers.domintros)
      qed
    qed
  qed
qed

termination mergeResolvers
  by (simp add: mergeResolvers_total split_paired_all)

text \<open>
  The loop of lines 62 to 71 replaces each Group by the result of merging it before it
  classifies: this is that replacement for one definition.
\<close>

definition flattenDefinition :: "('a, 's) merger \<Rightarrow> ('a, 's) jsval \<Rightarrow> ('a, 's) jsval" where
  "flattenDefinition md d = (case d of Arr nested \<Rightarrow> mergeResolvers md (Some nested) None | _ \<Rightarrow> d)"

text \<open>\<^verbatim>\<open>Array.isArray\<close>.\<close>

fun isArray :: "('a, 's) jsval \<Rightarrow> bool" where
  "isArray (Arr xs) = True"
| "isArray v = False"

text \<open>
  The factories and the objects among flattened definitions, each in the order of the
  input: what the loop leaves in \<^verbatim>\<open>resolversFactories\<close> and in \<^verbatim>\<open>resolvers\<close>.
\<close>

fun factoriesOf :: "('a, 's) jsval list \<Rightarrow> ('a, 's) factory list" where
  "factoriesOf [] = []"
| "factoriesOf (Fun f # ds) = f # factoriesOf ds"
| "factoriesOf (d # ds) = factoriesOf ds"

definition objectsOf :: "('a, 's) jsval list \<Rightarrow> ('a, 's) jsval list" where
  "objectsOf ds = filter (\<lambda>d. typeof d = ''object'') ds"

text \<open>The values the classification keeps: \<^verbatim>\<open>typeof\<close> is \<open>function\<close> or \<open>object\<close>.\<close>

definition recognised :: "('a, 's) jsval \<Rightarrow> bool" where
  "recognised d = (typeof d = ''function'' \<or> typeof d = ''object'')"

fun isNull :: "('a, 's) jsval \<Rightarrow> bool" where
  "isNull Null = True"
| "isNull v = False"

section \<open>Deep merge\<close>

text \<open>
  Modelled from the spec: \<^verbatim>\<open>mergeDeep\<close> of \<^verbatim>\<open>@graphql-tools/utils\<close>, which
  \<^verbatim>\<open>mergeResolvers\<close> imports and whose source is not among the files at hand. The
  spec: "recursively merge mapping values key-by-key; when both sides hold a mapping
  for the same key, merge the two mappings recursively; otherwise the later value
  replaces the earlier one; arrays and scalars are replaced wholesale, not concatenated
  or element-merged". The keys of the target keep their places and the new keys of the
  source follow in the source's order. Deep merge is a merge of Maps: of a source that
  is not a Map (\<open>null\<close>, which the loop of \<^verbatim>\<open>mergeResolvers\<close> lets through) nothing
  is merged, and the target is the result -- the spec: "non-mapping/non-function
  inputs are tolerated silently".
\<close>

fun isMap :: "('a, 's) jsval \<Rightarrow> bool" where
  "isMap (Obj kvs) = True"
| "isMap v = False"

fun mergeDeep :: "('a, 's) jsval \<Rightarrow> ('a, 's) jsval \<Rightarrow> ('a, 's) jsval" where
  "mergeDeep (Obj t) (Obj s) =
     Obj (map (\<lambda>kv. (fst kv, case map_of s (fst kv) of
                                None \<Rightarrow> snd kv
                              | Some sv \<Rightarrow>
                                  if isMap (snd kv) \<and> isMap sv then mergeDeep (snd kv) sv
                                  else sv)) t
          @ filter (\<lambda>kv. map_of t (fst kv) = None) s)"
| "mergeDeep target source = target"

text \<open>A Map, and the Maps it holds as values, have no key twice.\<close>

fun wellFormed :: "('a, 's) jsval \<Rightarrow> bool" where
  "wellFormed (Obj kvs) = (distinct (map fst kvs) \<and> list_all (\<lambda>kv. wellFormed (snd kv)) kvs)"
| "wellFormed v = True"

text \<open>\<open>r[t][f]\<close>, when \<open>r\<close> and \<open>r[t]\<close> are Maps and hold the keys.\<close>

definition fieldOf :: "('a, 's) jsval \<Rightarrow> string \<Rightarrow> string \<Rightarrow> ('a, 's) jsval option" where
  "fieldOf r t f =
     (case r of
        Obj m \<Rightarrow> (case map_of m t of Some (Obj fs) \<Rightarrow> map_of fs f | _ \<Rightarrow> None)
      | _ \<Rightarrow> None)"

text \<open>
  A definition leaves the field \<open>t.f\<close> to its predecessors: it is a Map that either
  has no entry for the type \<open>t\<close>, or has a Map there without the key \<open>f\<close>.
\<close>

definition leavesField :: "string \<Rightarrow> string \<Rightarrow> ('a, 's) jsval \<Rightarrow> bool" where
  "leavesField t f d =
     (case d of
        Obj b \<Rightarrow>
          (case map_of b t of
             None \<Rightarrow> True
           | Some tv \<Rightarrow> (case tv of Obj fs \<Rightarrow> map_of fs f = None | _ \<Rightarrow> False))
      | _ \<Rightarrow> False)"

section \<open>Exclusion strings\<close>



section \<open>The store\<close>

text \<open>
  Whether a call changes its inputs depends on which objects the result shares with
  them, which the trees above cannot say. Here a value is a primitive or a reference
  to a plain object in a store; the store is the list of all objects, an address is a
  position in it, and a new object is put at the end. Groups and Factories are not
  part of this model: it follows the function on definitions that are Maps (or
  primitives), along the same lines of the source as above.
\<close>

datatype hval = HUndefined | HNull | HBool bool | HNum int | HStr string | HRef nat

type_synonym hobj = "(string \<times> hval) list"

type_synonym heap = "hobj list"

definition alloc :: "heap \<Rightarrow> hobj \<Rightarrow> heap \<times> hval" where
  "alloc h obj = (h @ [obj], HRef (length h))"

text \<open>The object a value refers to, if it refers to one.\<close>

fun objectAt :: "heap \<Rightarrow> hval \<Rightarrow> hobj option" where
  "objectAt h (HRef a) = (if a < length h then Some (h ! a) else None)"
| "objectAt h v = None"

text \<open>
  Modelled from the spec: \<^verbatim>\<open>mergeDeep\<close> of \<^verbatim>\<open>@graphql-tools/utils\<close> again, now with
  the objects it creates. The spec: deep merge "must not write into source mappings --
  it builds new mapping nodes for any key merged from two mapping sources, but may
  share unmerged leaf references". So the merge of two objects is a new object; under
  a key that both hold as objects it refers to their merge, again new; under any other
  key it holds the very value (for an object: the very reference) that the source, or
  else the target, holds there. As on trees, of a source that is not an object nothing
  is merged. The store may hold cycles, so the recursion is bounded by a number of
  levels \<open>n\<close>, and \<open>None\<close> says that they did not suffice.
\<close>

fun mergeDeepH :: "nat \<Rightarrow> heap \<Rightarrow> hval \<Rightarrow> hval \<Rightarrow> (heap \<times> hval) option"
  and mergePropertiesH :: "nat \<Rightarrow> heap \<Rightarrow> hobj \<Rightarrow> hobj \<Rightarrow> (heap \<times> hobj) option" where
  "mergeDeepH 0 h target source = None"
| "mergeDeepH (Suc n) h target source =
     (case objectAt h source of
        None \<Rightarrow> Some (h, target)
      | Some s \<Rightarrow>
          (case objectAt h target of
             None \<Rightarrow> Some (h, target)
           | Some t \<Rightarrow>
               (case mergePropertiesH n h t s of
                  None \<Rightarrow> None
                | Some (h1, merged) \<Rightarrow>
                    Some (alloc h1 (merged @ filter (\<lambda>kv. map_of t (fst kv) = None) s)))))"
| "mergePropertiesH n h [] s = Some (h, [])"
| "mergePropertiesH n h (kv # rest) s =
     (case (case map_of s (fst kv) of
              None \<Rightarrow> Some (h, snd kv)
            | Some sv \<Rightarrow>
                if objectAt h (snd kv) \<noteq> None \<and> objectAt h sv \<noteq> None
                then mergeDeepH n h (snd kv) sv
                else Some (h, sv)) of
        None \<Rightarrow> None
      | Some (h1, v) \<Rightarrow>
          (case mergePropertiesH n h1 rest s of
             None \<Rightarrow> None
           | Some (h2, merged) \<Rightarrow> Some (h2, (fst kv, v) # merged)))"

text \<open>\<^verbatim>\<open>typeof\<close>, truthiness, reading and deleting a property, on the store.\<close>

fun typeofH :: "hval \<Rightarrow> string" where
  "typeofH HUndefined = ''undefined''"
| "typeofH HNull = ''object''"
| "typeofH (HBool b) = ''boolean''"
| "typeofH (HNum n) = ''number''"
| "typeofH (HStr s) = ''string''"
| "typeofH (HRef a) = ''object''"

fun truthyH :: "hval \<Rightarrow> bool" where
  "truthyH HUndefined = False"
| "truthyH HNull = False"
| "truthyH (HBool b) = b"
| "truthyH (HNum n) = (n \<noteq> 0)"
| "truthyH (HStr s) = (s \<noteq> [])"
| "truthyH (HRef a) = True"

definition getPropertyH :: "heap \<Rightarrow> hval \<Rightarrow> string \<Rightarrow> hval" where
  "getPropertyH h v k =
     (case objectAt h v of
        None \<Rightarrow> HUndefined
      | Some props \<Rightarrow> (case map_of props k of None \<Rightarrow> HUndefined | Some x \<Rightarrow> x))"

fun deletePropertyH :: "heap \<Rightarrow> hval \<Rightarrow> string \<Rightarrow> heap" where
  "deletePropertyH h (HRef a) k =
     (if a < length h then h[a := filter (\<lambda>kv. fst kv \<noteq> k) (h ! a)] else h)"
| "deletePropertyH h v k = h"

text \<open>
  Lines 83 to 88 on the store: \<^verbatim>\<open>delete result[typeName]\<close> writes into the object
  \<open>result\<close>, \<^verbatim>\<open>delete result[typeName][fieldName]\<close> into the object that
  \<open>result[typeName]\<close> refers to.
\<close>

definition applyExclusionH :: "hval \<Rightarrow> heap \<Rightarrow> string \<Rightarrow> heap" where
  "applyExclusionH result h exclusion =
     (case split exclusion (CHR ''.'') of
        [] \<Rightarrow> deletePropertyH h result ''undefined''
      | [typeName] \<Rightarrow> deletePropertyH h result typeName
      | typeName # fieldName # rest \<Rightarrow>
          if fieldName = [] \<or> fieldName = ''*'' then deletePropertyH h result typeName
          else if truthyH (getPropertyH h result typeName)
          then deletePropertyH h (getPropertyH h result typeName) fieldName
          else h)"

definition applyExclusionsH :: "hval \<Rightarrow> heap \<Rightarrow> MergeResolversOptions option \<Rightarrow> heap" where
  "applyExclusionsH result h options =
     (case options of
        None \<Rightarrow> h
      | Some opts \<Rightarrow>
          (case exclusions opts of
             None \<Rightarrow> h
           | Some exs \<Rightarrow> foldl (applyExclusionH result) h exs))"

text \<open>\<^verbatim>\<open>resolvers.reduce(mergeDeep, acc)\<close>.\<close>

fun reduceH :: "nat \<Rightarrow> heap \<Rightarrow> hval \<Rightarrow> hval list \<Rightarrow> (heap \<times> hval) option" where
  "reduceH n h acc [] = Some (h, acc)"
| "reduceH n h acc (d # ds) =
     (case mergeDeepH n h acc d of
        None \<Rightarrow> None
      | Some (h1, acc1) \<Rightarrow> reduceH n h1 acc1 ds)"

text \<open>
  \<^verbatim>\<open>mergeResolvers\<close> on the store. The literal \<^verbatim>\<open>{}\<close> is a new object; with no
  function among the definitions, \<^verbatim>\<open>resolvers\<close> are the definitions whose
  \<^verbatim>\<open>typeof\<close> is \<open>object\<close>.
\<close>

fun mergeResolversH ::
  "nat \<Rightarrow> heap \<Rightarrow> hval list option \<Rightarrow> MergeResolversOptions option \<Rightarrow> (heap \<times> hval) option" where
  "mergeResolversH n h None options = Some (alloc h [])"
| "mergeResolversH n h (Some []) options = Some (alloc h [])"
| "mergeResolversH n h (Some [singleDefinition]) options = Some (h, singleDefinition)"
| "mergeResolversH n h (Some (d1 # d2 # ds)) options =
     (case alloc h [] of
        (h0, initial) \<Rightarrow>
          (case reduceH n h0 initial (filter (\<lambda>d. typeofH d = ''object'') (d1 # d2 # ds)) of
             None \<Rightarrow> None
           | Some (h1, result) \<Rightarrow> Some (applyExclusionsH result h1 options, result)))"

text \<open>
  What a value of the store reads as: the tree under it, down to \<open>n\<close> levels (\<open>None\<close>
  when the tree is deeper, or a reference leads nowhere).
\<close>

fun readH :: "nat \<Rightarrow> heap \<Rightarrow> hval \<Rightarrow> (unit, unit) jsval option"
  and readPropertiesH :: "nat \<Rightarrow> heap \<Rightarrow> hobj \<Rightarrow> (string \<times> (unit, unit) jsval) list option" where
  "readH 0 h v = None"
| "readH (Suc n) h HUndefined = Some Undefined"
| "readH (Suc n) h HNull = Some Null"
| "readH (Suc n) h (HBool b) = Some (Bool b)"
| "readH (Suc n) h (HNum i) = Some (Num i)"
| "readH (Suc n) h (HStr s) = Some (Str s)"
| "readH (Suc n) h (HRef a) =
     (case objectAt h (HRef a) of
        None \<Rightarrow> None
      | Some props \<Rightarrow> map_option Obj (readPropertiesH n h props))"
| "readPropertiesH n h [] = Some []"
| "readPropertiesH n h (kv # rest) =
     (case readH n h (snd kv) of
        None \<Rightarrow> None
      | Some v \<Rightarrow>
          (case readPropertiesH n h rest of
             None \<Rightarrow> None
           | Some vs \<Rightarrow> Some ((fst kv, v) # vs)))"

section \<open>Objects with prototypes\<close>

text \<open>
  Lines 81 to 88 read and delete properties of whatever \<^verbatim>\<open>result\<close> is and of whatever
  \<^verbatim>\<open>result[typeName]\<close> is: an object of the input held under several keys, a string,
  an array, a function, an object found along the prototype chain; and in the strict
  code of a module \<^verbatim>\<open>delete\<close> throws a \<open>TypeError\<close> when the property cannot be
  deleted. This section follows the whole function on a store of objects as the
  language has them. An object is a cell of the store:
  \<^item> its own properties, in order, each with its content and whether it is
    configurable (only a configurable property can be deleted). The content is a value
    (\<open>Data\<close>), or one of the two accessors of the standard library that can be met here:
    the getter of \<^verbatim>\<open>__proto__\<close>, which answers the prototype of the object asked
    (\<open>ProtoGetter\<close>), and the getter that throws a \<open>TypeError\<close>, under \<^verbatim>\<open>caller\<close> and
    \<^verbatim>\<open>arguments\<close> of \<^verbatim>\<open>Function.prototype\<close> (\<open>Thrower\<close>). Getters written by the
    caller, and proxies, are not part of the model;
  \<^item> its prototype, a reference or \<open>null\<close>;
  \<^item> its kind: a plain object; an array with its elements (\<open>None\<close> is a hole), whose
    own properties \<^verbatim>\<open>length\<close> (not configurable) and the indices of its elements
    (configurable, as they are in an array that was not sealed or frozen) are read
    off the elements; a function of the caller; or the function that line 74 creates,
    with the two arrays it has captured.

  The prototypes of the standard library are cells of the store like all others, so
  that what a name such as \<^verbatim>\<open>constructor\<close> or \<^verbatim>\<open>toString\<close> finds is decided by the
  store that is given; \<open>realm\<close> tells where the prototypes are that new objects, new
  functions and the primitive values get.
\<close>

datatype error = TypeError

datatype 'r outcome = Returns 'r | Throws error | NoResult

datatype slot = Data hval | ProtoGetter | Thrower

record property =
  content :: slot
  configurable :: bool

datatype kind =
    Plain
  | Array "hval option list"
  | Function
  | Closure "hval list" "hval list"

record cell =
  kind :: kind
  ownProps :: "(string \<times> property) list"
  proto :: hval

type_synonym ostore = "cell list"

record realm =
  objectPrototype :: hval
  functionPrototype :: hval
  stringPrototype :: hval
  numberPrototype :: hval
  booleanPrototype :: hval

definition cellAt :: "ostore \<Rightarrow> nat \<Rightarrow> cell option" where
  "cellAt h a = (if a < length h then Some (h ! a) else None)"

definition allocO :: "ostore \<Rightarrow> cell \<Rightarrow> ostore \<times> hval" where
  "allocO h c = (h @ [c], HRef (length h))"

text \<open>
  A property key is an index when it is the decimal writing of a number, without a
  sign and without leading zeros: \<open>0\<close>, \<open>1\<close>, \<open>12\<close>, and not \<open>01\<close> or \<open>+1\<close>.
\<close>

definition digitOf :: "char \<Rightarrow> nat option" where
  "digitOf c =
     map_of [(CHR ''0'', 0), (CHR ''1'', 1), (CHR ''2'', 2), (CHR ''3'', 3), (CHR ''4'', 4),
             (CHR ''5'', 5), (CHR ''6'', 6), (CHR ''7'', 7), (CHR ''8'', 8), (CHR ''9'', 9)] c"

fun digitsOf :: "string \<Rightarrow> nat list option" where
  "digitsOf [] = Some []"
| "digitsOf (c # cs) =
     (case digitOf c of
        None \<Rightarrow> None
      | Some d \<Rightarrow> (case digitsOf cs of None \<Rightarrow> None | Some ds \<Rightarrow> Some (d # ds)))"

definition indexOf :: "string \<Rightarrow> nat option" where
  "indexOf k =
     (case k of
        [] \<Rightarrow> None
      | c # cs \<Rightarrow>
          if c = CHR ''0'' \<and> cs \<noteq> [] then None
          else map_option (foldl (\<lambda>n d. 10 * n + d) 0) (digitsOf k))"

text \<open>
  The own properties of a string: its \<^verbatim>\<open>length\<close> and its characters under their
  indices. None of them is configurable.
\<close>

definition stringOwn :: "string \<Rightarrow> string \<Rightarrow> hval option" where
  "stringOwn s k =
     (if k = ''length'' then Some (HNum (int (length s)))
      else (case indexOf k of
              None \<Rightarrow> None
            | Some i \<Rightarrow> if i < length s then Some (HStr [s ! i]) else None))"

text \<open>The element of an array that a key names, when it names one that is there.\<close>

definition elementOf :: "hval option list \<Rightarrow> string \<Rightarrow> (nat \<times> hval) option" where
  "elementOf elems k =
     (case indexOf k of
        None \<Rightarrow> None
      | Some i \<Rightarrow>
          if i < length elems then (case elems ! i of None \<Rightarrow> None | Some v \<Rightarrow> Some (i, v))
          else None)"

text \<open>The own property of an object under a key.\<close>

definition ownProperty :: "cell \<Rightarrow> string \<Rightarrow> property option" where
  "ownProperty c k =
     (case kind c of
        Array elems \<Rightarrow>
          if k = ''length''
          then Some \<lparr>content = Data (HNum (int (length elems))), configurable = False\<rparr>
          else (case elementOf elems k of
                  Some (i, v) \<Rightarrow> Some \<lparr>content = Data v, configurable = True\<rparr>
                | None \<Rightarrow> map_of (ownProps c) k)
      | _ \<Rightarrow> map_of (ownProps c) k)"

text \<open>
  The object without its own property \<open>k\<close>: an element of an array leaves a hole, any
  other property leaves the list.
\<close>

definition removeOwn :: "cell \<Rightarrow> string \<Rightarrow> cell" where
  "removeOwn c k =
     (case kind c of
        Array elems \<Rightarrow>
          (case elementOf elems k of
             Some (i, v) \<Rightarrow> c\<lparr>kind := Array (elems[i := None])\<rparr>
           | None \<Rightarrow> c\<lparr>ownProps := filter (\<lambda>kv. fst kv \<noteq> k) (ownProps c)\<rparr>)
      | _ \<Rightarrow> c\<lparr>ownProps := filter (\<lambda>kv. fst kv \<noteq> k) (ownProps c)\<rparr>)"

text \<open>
  Looking a key up along the prototype chain, from the object \<open>v\<close> on. A chain has no
  cycle, so it is no longer than the store; \<open>n\<close> bounds the steps.
\<close>

fun lookupO :: "nat \<Rightarrow> ostore \<Rightarrow> hval \<Rightarrow> string \<Rightarrow> property option" where
  "lookupO 0 h v k = None"
| "lookupO (Suc n) h (HRef a) k =
     (case cellAt h a of
        None \<Rightarrow> None
      | Some c \<Rightarrow>
          (case ownProperty c k of
             Some p \<Rightarrow> Some p
           | None \<Rightarrow> lookupO n h (proto c) k))"
| "lookupO (Suc n) h v k = None"

text \<open>The prototype of a value: of an object its own, of a primitive the one of its wrapper.\<close>

definition protoOf :: "realm \<Rightarrow> ostore \<Rightarrow> hval \<Rightarrow> hval" where
  "protoOf R h v =
     (case v of
        HRef a \<Rightarrow> (case cellAt h a of None \<Rightarrow> HNull | Some c \<Rightarrow> proto c)
      | HStr s \<Rightarrow> stringPrototype R
      | HNum i \<Rightarrow> numberPrototype R
      | HBool b \<Rightarrow> booleanPrototype R
      | _ \<Rightarrow> HNull)"

text \<open>
  \<^verbatim>\<open>v[k]\<close>: a \<open>TypeError\<close> on \<open>undefined\<close> and \<open>null\<close>; else the own property, or the
  first one along the prototype chain, or \<open>undefined\<close>.
\<close>

definition getO :: "realm \<Rightarrow> ostore \<Rightarrow> hval \<Rightarrow> string \<Rightarrow> hval outcome" where
  "getO R h v k =
     (case v of
        HUndefined \<Rightarrow> Throws TypeError
      | HNull \<Rightarrow> Throws TypeError
      | _ \<Rightarrow>
          (case (case v of HStr s \<Rightarrow> stringOwn s k | _ \<Rightarrow> None) of
             Some x \<Rightarrow> Returns x
           | None \<Rightarrow>
               (case lookupO (Suc (length h)) h (case v of HRef a \<Rightarrow> v | _ \<Rightarrow> protoOf R h v) k of
                  None \<Rightarrow> Returns HUndefined
                | Some p \<Rightarrow>
                    (case content p of
                       Data x \<Rightarrow> Returns x
                     | ProtoGetter \<Rightarrow> Returns (protoOf R h v)
                     | Thrower \<Rightarrow> Throws TypeError))))"

text \<open>
  \<^verbatim>\<open>delete v[k]\<close> in strict code. Only own properties count. On \<open>undefined\<close> and
  \<open>null\<close> it throws; a number or a boolean has no own property; the own properties of
  a string cannot be deleted; an object loses a configurable property, and keeps one
  that is not, with a \<open>TypeError\<close>. The object is changed where it is, for every
  holder of a reference to it.
\<close>

definition deleteO :: "ostore \<Rightarrow> hval \<Rightarrow> string \<Rightarrow> ostore outcome" where
  "deleteO h v k =
     (case v of
        HUndefined \<Rightarrow> Throws TypeError
      | HNull \<Rightarrow> Throws TypeError
      | HBool b \<Rightarrow> Returns h
      | HNum i \<Rightarrow> Returns h
      | HStr s \<Rightarrow> if stringOwn s k = None then Returns h else Throws TypeError
      | HRef a \<Rightarrow>
          (case cellAt h a of
             None \<Rightarrow> Returns h
           | Some c \<Rightarrow>
               (case ownProperty c k of
                  None \<Rightarrow> Returns h
                | Some p \<Rightarrow>
                    if configurable p then Returns (h[a := removeOwn c k])
                    else Throws TypeError)))"

text \<open>\<^verbatim>\<open>typeof\<close> and \<^verbatim>\<open>Array.isArray\<close> with the elements a loop over the array meets.\<close>

definition typeofO :: "ostore \<Rightarrow> hval \<Rightarrow> string" where
  "typeofO h v =
     (case v of
        HRef a \<Rightarrow>
          (case cellAt h a of
             None \<Rightarrow> ''object''
           | Some c \<Rightarrow>
               (case kind c of
                  Function \<Rightarrow> ''function''
                | Closure fs rs \<Rightarrow> ''function''
                | _ \<Rightarrow> ''object''))
      | _ \<Rightarrow> typeofH v)"

definition elementsAt :: "ostore \<Rightarrow> hval \<Rightarrow> hval list option" where
  "elementsAt h v =
     (case v of
        HRef a \<Rightarrow>
          (case cellAt h a of
             None \<Rightarrow> None
           | Some c \<Rightarrow>
               (case kind c of
                  Array elems \<Rightarrow> Some (map (\<lambda>e. case e of None \<Rightarrow> HUndefined | Some x \<Rightarrow> x) elems)
                | _ \<Rightarrow> None))
      | _ \<Rightarrow> None)"

text \<open>
  The literal \<^verbatim>\<open>{}\<close>, and the arrow function of line 74: a function with the own
  properties \<^verbatim>\<open>length\<close> (it takes a rest parameter only) and \<^verbatim>\<open>name\<close> (it is assigned
  to the variable \<^verbatim>\<open>result\<close>), both configurable, and no \<^verbatim>\<open>prototype\<close>.
\<close>

definition emptyObject :: "realm \<Rightarrow> cell" where
  "emptyObject R = \<lparr>kind = Plain, ownProps = [], proto = objectPrototype R\<rparr>"

definition closure :: "realm \<Rightarrow> hval list \<Rightarrow> hval list \<Rightarrow> cell" where
  "closure R resolversFactories resolvers =
     \<lparr>kind = Closure resolversFactories resolvers,
      ownProps = [(''length'', \<lparr>content = Data (HNum 0), configurable = True\<rparr>),
               (''name'', \<lparr>content = Data (HStr ''result''), configurable = True\<rparr>)],
      proto = functionPrototype R\<rparr>"

text \<open>
  The body of the loop over the exclusions (lines 83 to 88), now with what reading and
  deleting can do. Line 87 reads \<^verbatim>\<open>result[typeName]\<close> a second time, with the same
  answer.
\<close>

definition applyExclusionO :: "realm \<Rightarrow> hval \<Rightarrow> ostore \<Rightarrow> string \<Rightarrow> ostore outcome" where
  "applyExclusionO R result h exclusion =
     (case split exclusion (CHR ''.'') of
        [] \<Rightarrow> deleteO h result ''undefined''
      | [typeName] \<Rightarrow> deleteO h result typeName
      | typeName # fieldName # rest \<Rightarrow>
          if fieldName = [] \<or> fieldName = ''*'' then deleteO h result typeName
          else (case getO R h result typeName of
                  Returns v \<Rightarrow> if truthyH v then deleteO h v fieldName else Returns h
                | Throws e \<Rightarrow> Throws e
                | NoResult \<Rightarrow> NoResult))"

fun applyAllO :: "realm \<Rightarrow> hval \<Rightarrow> ostore \<Rightarrow> string list \<Rightarrow> ostore outcome" where
  "applyAllO R result h [] = Returns h"
| "applyAllO R result h (exclusion # rest) =
     (case applyExclusionO R result h exclusion of
        Returns h1 \<Rightarrow> applyAllO R result h1 rest
      | Throws e \<Rightarrow> Throws e
      | NoResult \<Rightarrow> NoResult)"

definition applyExclusionsO ::
  "realm \<Rightarrow> hval \<Rightarrow> ostore \<Rightarrow> MergeResolversOptions option \<Rightarrow> ostore outcome" where
  "applyExclusionsO R result h options =
     (case options of
        None \<Rightarrow> Returns h
      | Some opts \<Rightarrow>
          (case exclusions opts of
             None \<Rightarrow> Returns h
           | Some exs \<Rightarrow> applyAllO R result h exs))"

text \<open>
  \<^verbatim>\<open>mergeDeep\<close> is a parameter here as well: a function of the store and two values,
  the value merged so far and the next one, which may return with a new store, throw,
  or not return. (\<^verbatim>\<open>reduce\<close> hands its callback the index and the array as well,
  which are not definitions.)
\<close>

type_synonym mergerO = "ostore \<Rightarrow> hval \<Rightarrow> hval \<Rightarrow> (ostore \<times> hval) outcome"

fun reduceO :: "mergerO \<Rightarrow> ostore \<times> hval \<Rightarrow> hval list \<Rightarrow> (ostore \<times> hval) outcome" where
  "reduceO md acc [] = Returns acc"
| "reduceO md acc (d # ds) =
     (case md (fst acc) (snd acc) d of
        Returns acc1 \<Rightarrow> reduceO md acc1 ds
      | Throws e \<Rightarrow> Throws e
      | NoResult \<Rightarrow> NoResult)"

text \<open>
  \<^verbatim>\<open>mergeResolvers\<close> on the store. An array of the store may contain itself, and then
  the recursion of lines 53 and 64 does not end: \<open>n\<close> bounds the depth of the calls,
  and \<open>NoResult\<close> says that it did not suffice. \<open>collectO\<close> is the loop of lines 62 to
  71 with its two arrays.
\<close>

fun mergeResolversO ::
  "realm \<Rightarrow> mergerO \<Rightarrow> nat \<Rightarrow> ostore \<Rightarrow> hval list option \<Rightarrow> MergeResolversOptions option
     \<Rightarrow> (ostore \<times> hval) outcome"
  and collectO ::
  "realm \<Rightarrow> mergerO \<Rightarrow> nat \<Rightarrow> ostore \<Rightarrow> hval list \<Rightarrow> hval list \<Rightarrow> hval list
     \<Rightarrow> (ostore \<times> hval list \<times> hval list) outcome" where
  "mergeResolversO R md 0 h defs options = NoResult"
| "mergeResolversO R md (Suc n) h None options = Returns (allocO h (emptyObject R))"
| "mergeResolversO R md (Suc n) h (Some []) options = Returns (allocO h (emptyObject R))"
| "mergeResolversO R md (Suc n) h (Some [singleDefinition]) options =
     (case elementsAt h singleDefinition of
        Some nested \<Rightarrow> mergeResolversO R md n h (Some nested) None
      | None \<Rightarrow> Returns (h, singleDefinition))"
| "mergeResolversO R md (Suc n) h (Some (d1 # d2 # ds)) options =
     (case collectO R md n h (d1 # d2 # ds) [] [] of
        Returns (h1, resolversFactories, resolvers) \<Rightarrow>
          (case (if resolversFactories \<noteq> []
                 then Returns (allocO (fst (allocO h1 (emptyObject R)))
                                 (closure R resolversFactories resolvers))
                 else reduceO md (allocO (fst (allocO h1 (emptyObject R))) (emptyObject R))
                        resolvers) of
             Returns (h2, result) \<Rightarrow>
               (case applyExclusionsO R result h2 options of
                  Returns h3 \<Rightarrow> Returns (h3, result)
                | Throws e \<Rightarrow> Throws e
                | NoResult \<Rightarrow> NoResult)
           | Throws e \<Rightarrow> Throws e
           | NoResult \<Rightarrow> NoResult)
      | Throws e \<Rightarrow> Throws e
      | NoResult \<Rightarrow> NoResult)"
| "collectO R md n h [] resolversFactories resolvers = Returns (h, resolversFactories, resolvers)"
| "collectO R md n h (resolversDefinition # rest) resolversFactories resolvers =
     (case (case elementsAt h resolversDefinition of
              Some nested \<Rightarrow> mergeResolversO R md n h (Some nested) None
            | None \<Rightarrow> Returns (h, resolversDefinition)) of
        Returns (h1, flattened) \<Rightarrow>
          if typeofO h1 flattened = ''function''
          then collectO R md n h1 rest (resolversFactories @ [flattened]) resolvers
          else if typeofO h1 flattened = ''object''
          then collectO R md n h1 rest resolversFactories (resolvers @ [flattened])
          else collectO R md n h1 rest resolversFactories resolvers
      | Throws e \<Rightarrow> Throws e
      | NoResult \<Rightarrow> NoResult)"

text \<open>
  Modelled from the spec: \<^verbatim>\<open>mergeDeep\<close> once more, on this store, for the examples
  below. As before, a source that is not a plain object contributes nothing; the merge
  of two plain objects is a new plain object; under a key that both hold as plain
  objects it refers to their merge, again new; under any other key it holds the very
  property of the source, or else of the target. \<open>n\<close> bounds the depth.
\<close>

definition plainAt :: "ostore \<Rightarrow> hval \<Rightarrow> cell option" where
  "plainAt h v =
     (case v of
        HRef a \<Rightarrow>
          (case cellAt h a of
             None \<Rightarrow> None
           | Some c \<Rightarrow> (case kind c of Plain \<Rightarrow> Some c | _ \<Rightarrow> None))
      | _ \<Rightarrow> None)"

definition dataOf :: "property \<Rightarrow> hval" where
  "dataOf p = (case content p of Data v \<Rightarrow> v | _ \<Rightarrow> HUndefined)"

fun mergeDeepO :: "realm \<Rightarrow> nat \<Rightarrow> ostore \<Rightarrow> hval \<Rightarrow> hval \<Rightarrow> (ostore \<times> hval) outcome"
  and mergePropertiesO ::
  "realm \<Rightarrow> nat \<Rightarrow> ostore \<Rightarrow> (string \<times> property) list \<Rightarrow> (string \<times> property) list
     \<Rightarrow> (ostore \<times> (string \<times> property) list) outcome" where
  "mergeDeepO R 0 h target source = NoResult"
| "mergeDeepO R (Suc n) h target source =
     (case plainAt h source of
        None \<Rightarrow> Returns (h, target)
      | Some s \<Rightarrow>
          (case plainAt h target of
             None \<Rightarrow> Returns (h, target)
           | Some t \<Rightarrow>
               (case mergePropertiesO R n h (ownProps t) (ownProps s) of
                  Returns (h1, merged) \<Rightarrow>
                    Returns (allocO h1
                      \<lparr>kind = Plain,
                       ownProps = merged @ filter (\<lambda>kv. map_of (ownProps t) (fst kv) = None) (ownProps s),
                       proto = objectPrototype R\<rparr>)
                | Throws e \<Rightarrow> Throws e
                | NoResult \<Rightarrow> NoResult)))"
| "mergePropertiesO R n h [] s = Returns (h, [])"
| "mergePropertiesO R n h (kv # rest) s =
     (case (case map_of s (fst kv) of
              None \<Rightarrow> Returns (h, snd kv)
            | Some sp \<Rightarrow>
                (case plainAt h (dataOf (snd kv)) of
                   None \<Rightarrow> Returns (h, sp)
                 | Some t \<Rightarrow>
                     (case plainAt h (dataOf sp) of
                        None \<Rightarrow> Returns (h, sp)
                      | Some s' \<Rightarrow>
                          (case mergeDeepO R n h (dataOf (snd kv)) (dataOf sp) of
                             Returns (h1, v) \<Rightarrow>
                               Returns (h1, \<lparr>content = Data v, configurable = True\<rparr>)
                           | Throws e \<Rightarrow> Throws e
                           | NoResult \<Rightarrow> NoResult)))) of
        Returns (h1, p) \<Rightarrow>
          (case mergePropertiesO R n h1 rest s of
             Returns (h2, merged) \<Rightarrow> Returns (h2, (fst kv, p) # merged)
           | Throws e \<Rightarrow> Throws e
           | NoResult \<Rightarrow> NoResult)
      | Throws e \<Rightarrow> Throws e
      | NoResult \<Rightarrow> NoResult)"




text \<open>
  The definitions of the loop in words: each is flattened in its turn (a Group by the
  call on its elements, without options), and noted with the \<^verbatim>\<open>typeof\<close> it then has.
\<close>

fun flattenO ::
  "realm \<Rightarrow> mergerO \<Rightarrow> nat \<Rightarrow> ostore \<Rightarrow> hval list \<Rightarrow> (ostore \<times> (hval \<times> string) list) outcome" where
  "flattenO R md n h [] = Returns (h, [])"
| "flattenO R md n h (d # ds) =
     (case (case elementsAt h d of
              Some nested \<Rightarrow> mergeResolversO R md n h (Some nested) None
            | None \<Rightarrow> Returns (h, d)) of
        Returns (h1, flattened) \<Rightarrow>
          (case flattenO R md n h1 ds of
             Returns (h2, rest) \<Rightarrow> Returns (h2, (flattened, typeofO h1 flattened) # rest)
           | Throws e \<Rightarrow> Throws e
           | NoResult \<Rightarrow> NoResult)
      | Throws e \<Rightarrow> Throws e
      | NoResult \<Rightarrow> NoResult)"





text \<open>
  An excerpt of the standard library, for the examples: \<^verbatim>\<open>Object.prototype\<close> (0) with
  \<^verbatim>\<open>constructor\<close>, the accessor \<^verbatim>\<open>__proto__\<close> and \<^verbatim>\<open>toString\<close>;
  \<^verbatim>\<open>Function.prototype\<close> (1) with \<^verbatim>\<open>length\<close>, \<^verbatim>\<open>name\<close>, the throwing accessors
  \<^verbatim>\<open>arguments\<close> and \<^verbatim>\<open>caller\<close>, and \<^verbatim>\<open>constructor\<close>; the prototypes of strings (2),
  numbers (3) and booleans (4); the constructors \<^verbatim>\<open>Object\<close> (5) and \<^verbatim>\<open>Function\<close> (6),
  whose \<^verbatim>\<open>prototype\<close> is not configurable; and \<^verbatim>\<open>Object.prototype.toString\<close> (7).
  The other members of these objects and the prototype of arrays are left out: the
  examples read no other inherited property.
\<close>

definition dataProperty :: "hval \<Rightarrow> property" where
  "dataProperty v = \<lparr>content = Data v, configurable = True\<rparr>"

definition fixedProperty :: "hval \<Rightarrow> property" where
  "fixedProperty v = \<lparr>content = Data v, configurable = False\<rparr>"

definition accessor :: "slot \<Rightarrow> property" where
  "accessor getter = \<lparr>content = getter, configurable = True\<rparr>"

definition standardRealm :: realm where
  "standardRealm =
     \<lparr>objectPrototype = HRef 0, functionPrototype = HRef 1, stringPrototype = HRef 2,
      numberPrototype = HRef 3, booleanPrototype = HRef 4\<rparr>"

definition standardObjects :: ostore where
  "standardObjects =
     [\<lparr>kind = Plain,
       ownProps = [(''constructor'', dataProperty (HRef 5)), (''__proto__'', accessor ProtoGetter),
                (''toString'', dataProperty (HRef 7))],
       proto = HNull\<rparr>,
      \<lparr>kind = Function,
       ownProps = [(''length'', dataProperty (HNum 0)), (''name'', dataProperty (HStr [])),
                (''arguments'', accessor Thrower), (''caller'', accessor Thrower),
                (''constructor'', dataProperty (HRef 6))],
       proto = HRef 0\<rparr>,
      \<lparr>kind = Plain, ownProps = [(''length'', fixedProperty (HNum 0))], proto = HRef 0\<rparr>,
      \<lparr>kind = Plain, ownProps = [], proto = HRef 0\<rparr>,
      \<lparr>kind = Plain, ownProps = [], proto = HRef 0\<rparr>,
      \<lparr>kind = Function,
       ownProps = [(''length'', dataProperty (HNum 1)), (''name'', dataProperty (HStr ''Object'')),
                (''prototype'', fixedProperty (HRef 0))],
       proto = HRef 1\<rparr>,
      \<lparr>kind = Function,
       ownProps = [(''length'', dataProperty (HNum 1)), (''name'', dataProperty (HStr ''Function'')),
                (''prototype'', fixedProperty (HRef 1))],
       proto = HRef 1\<rparr>,
      \<lparr>kind = Function,
       ownProps = [(''length'', dataProperty (HNum 0)), (''name'', dataProperty (HStr ''toString''))],
       proto = HRef 1\<rparr>]"

text \<open>A plain object with the given values under the given keys.\<close>

definition plain :: "(string \<times> hval) list \<Rightarrow> cell" where
  "plain kvs =
     \<lparr>kind = Plain, ownProps = map (\<lambda>kv. (fst kv, dataProperty (snd kv))) kvs, proto = HRef 0\<rparr>"




subsection \<open>Examples\<close>

text \<open>
  The store of the examples with Maps: after the excerpt of the standard library, the
  object \<^verbatim>\<open>{x: 1, y: 2}\<close> (8), the definition \<^verbatim>\<open>{A: (8)}\<close> (9), the object
  \<^verbatim>\<open>{y: 2}\<close> (10) and the definition \<^verbatim>\<open>{B: (10)}\<close> (11).
\<close>

definition exampleMaps :: ostore where
  "exampleMaps =
     standardObjects
     @ [plain [(''x'', HNum 1), (''y'', HNum 2)], plain [(''A'', HRef 8)],
        plain [(''y'', HNum 2)], plain [(''B'', HRef 10)]]"



section \<open>The loop and the result\<close>

text \<open>
  With two or more definitions the function is the fourth equation, read with
  \<open>flattenDefinition\<close>; the loop leaves the factories and the objects of the flattened
  definitions, in their order.
\<close>

lemma mergeResolvers_many:
  assumes "2 \<le> length defs"
  shows "mergeResolvers md (Some defs) options =
     (case foldl classify ([], []) (map (flattenDefinition md) defs) of
        (resolversFactories, resolvers) \<Rightarrow>
          applyExclusions
            (if resolversFactories \<noteq> [] then
               Fun (\<lambda>args s.
                 case invokeAll resolversFactories args s of
                   (resultsOfFactories, s') \<Rightarrow>
                     (foldl md (Obj []) (resolvers @ resultsOfFactories), s'))
             else foldl md (Obj []) resolvers)
            options)"
proof (cases defs)
  case Nil
  with assms show ?thesis by simp
next
  case (Cons d1 rest)
  note outer = this
  show ?thesis
  proof (cases rest)
    case Nil
    with outer assms show ?thesis by simp
  next
    case (Cons d2 ds)
    have "(\<lambda>d. case d of Arr nested \<Rightarrow> mergeResolvers md (Some nested) None | _ \<Rightarrow> d)
            = flattenDefinition md"
      by (rule ext) (simp add: flattenDefinition_def)
    with outer Cons show ?thesis by simp
  qed
qed

lemma classify_foldl:
  "foldl classify (fs, rs) flat = (fs @ factoriesOf flat, rs @ objectsOf flat)"
proof (induction flat arbitrary: fs rs)
  case Nil
  then show ?case by (simp add: objectsOf_def)
next
  case (Cons d flat)
  then show ?case by (cases d) (simp_all add: classify_def objectsOf_def)
qed

section \<open>Empty input\<close>

text \<open>
  C9. When the definitions are absent (\<open>undefined\<close> or \<open>null\<close>) or an empty sequence,
  the result is the empty Map, whatever the options and their exclusions are.
\<close>

theorem mergeResolvers_empty:
  "mergeResolvers md None options = Obj [] \<and> mergeResolvers md (Some []) options = Obj []"
  by simp

section \<open>A single definition\<close>

text \<open>
  C4. When the definitions are exactly one element that is not a Group (a single Map or
  a single Factory), \<^verbatim>\<open>mergeResolvers\<close> returns that element itself: nothing is
  merged and no exclusion is applied, even when the options give exclusions. In
  particular \<^verbatim>\<open>mergeResolvers([M], options)\<close> is \<open>M\<close> for every Map \<open>M\<close>.
\<close>

theorem mergeResolvers_single:
  assumes "\<not> isArray d"
  shows "mergeResolvers md (Some [d]) options = d"
  using assms by (cases d) simp_all

theorem mergeResolvers_single_witness:
  "\<not> isArray (Obj [(''A'', Obj [(''x'', Num 1)])] :: (unit, unit) jsval)
   \<and> mergeResolvers mergeDeep (Some [Obj [(''A'', Obj [(''x'', Num 1)])] :: (unit, unit) jsval])
       (Some \<lparr>exclusions = Some [''A'']\<rparr>) = Obj [(''A'', Obj [(''x'', Num 1)])]"
  using mergeResolvers_single
    [of "Obj [(''A'', Obj [(''x'', Num 1)])] :: (unit, unit) jsval" mergeDeep
        "Some \<lparr>exclusions = Some [''A'']\<rparr>"]
  by simp

text \<open>
  C5. A call whose single element is the Group \<open>[A, B, ...]\<close> equals the call on the
  sequence \<open>[A, B, ...]\<close> without options: the exclusions of the outer call are not
  handed to the recursive call, so they are bypassed on this path.
\<close>

theorem mergeResolvers_single_group:
  "mergeResolvers md (Some [Arr defs]) options = mergeResolvers md (Some defs) None"
  by simp

section \<open>Deep merge of Maps\<close>

text \<open>Looking a key up in a merged Map; merging a well-formed Map with itself.\<close>

lemma map_of_merged_values:
  "map_of (map (\<lambda>kv. (fst kv, case map_of s (fst kv) of
                                   None \<Rightarrow> snd kv
                                 | Some sv \<Rightarrow>
                                     if isMap (snd kv) \<and> isMap sv then mergeDeep (snd kv) sv
                                     else sv)) t) k
   = map_option (\<lambda>tv. case map_of s k of
                         None \<Rightarrow> tv
                       | Some sv \<Rightarrow> if isMap tv \<and> isMap sv then mergeDeep tv sv else sv)
       (map_of t k)"
  by (induction t) auto

lemma map_of_new_keys:
  "map_of (filter (\<lambda>kv. map_of t (fst kv) = None) s) k
   = (if map_of t k = None then map_of s k else None)"
  by (induction s) auto

lemma map_of_mergeDeep:
  assumes "mergeDeep (Obj t) (Obj s) = Obj r"
  shows "map_of r k =
     (case map_of t k of
        None \<Rightarrow> map_of s k
      | Some tv \<Rightarrow>
          (case map_of s k of
             None \<Rightarrow> Some tv
           | Some sv \<Rightarrow> Some (if isMap tv \<and> isMap sv then mergeDeep tv sv else sv)))"
proof -
  from assms have r: "r = map (\<lambda>kv. (fst kv, case map_of s (fst kv) of
                                   None \<Rightarrow> snd kv
                                 | Some sv \<Rightarrow>
                                     if isMap (snd kv) \<and> isMap sv then mergeDeep (snd kv) sv
                                     else sv)) t
                  @ filter (\<lambda>kv. map_of t (fst kv) = None) s"
    by simp
  show ?thesis
    unfolding r map_of_append map_add_def map_of_new_keys map_of_merged_values
    by (simp split: option.splits)
qed

lemma mergeDeep_empty: "mergeDeep (Obj []) (Obj s) = Obj s"
  by simp

lemma mergeDeep_isMap: "isMap a \<Longrightarrow> isMap (mergeDeep a b)"
  by (cases a; cases b) simp_all

lemma foldl_mergeDeep_isMap:
  "isMap acc \<Longrightarrow> \<forall>d\<in>set ds. isMap d \<Longrightarrow> isMap (foldl mergeDeep acc ds)"
  by (induction ds arbitrary: acc) (simp_all add: mergeDeep_isMap)

lemma mergeDeep_self: "wellFormed v \<Longrightarrow> mergeDeep v v = v"
proof (induction v)
  case (Obj kvs)
  have keys: "map_of kvs (fst kv) = Some (snd kv)" if "kv \<in> set kvs" for kv
  proof -
    from Obj.prems have "distinct (map fst kvs)" by simp
    moreover from that have "(fst kv, snd kv) \<in> set kvs" by simp
    ultimately show ?thesis by (rule map_of_is_SomeI)
  qed
  have vals: "mergeDeep (snd kv) (snd kv) = snd kv" if "kv \<in> set kvs" for kv
  proof -
    from that Obj.prems have "wellFormed (snd kv)" by (simp add: list_all_iff)
    moreover have "snd kv \<in> Basic_BNFs.snds kv" by (cases kv) simp
    ultimately show ?thesis using Obj.IH that by blast
  qed
  have "map (\<lambda>kv. (fst kv, case map_of kvs (fst kv) of
                              None \<Rightarrow> snd kv
                            | Some sv \<Rightarrow>
                                if isMap (snd kv) \<and> isMap sv then mergeDeep (snd kv) sv
                                else sv)) kvs = map (\<lambda>kv. kv) kvs"
    by (rule map_cong) (simp_all add: keys vals)
  moreover have "filter (\<lambda>kv. map_of kvs (fst kv) = None) kvs = []"
    by (simp add: filter_empty_conv keys)
  ultimately show ?case by simp
qed simp_all
lemma objectsOf_maps: "\<forall>d\<in>set defs. isMap d \<Longrightarrow> objectsOf defs = defs"
proof (induction defs)
  case (Cons d defs)
  then show ?case by (cases d) (simp_all add: objectsOf_def)
qed (simp add: objectsOf_def)

lemma factoriesOf_maps: "\<forall>d\<in>set defs. isMap d \<Longrightarrow> factoriesOf defs = []"
proof (induction defs)
  case (Cons d defs)
  then show ?case by (cases d) simp_all
qed simp

lemma flatten_maps: "\<forall>d\<in>set defs. isMap d \<Longrightarrow> map (flattenDefinition md) defs = defs"
proof (induction defs)
  case (Cons d defs)
  then show ?case by (cases d) (simp_all add: flattenDefinition_def)
qed simp

lemma mergeResolvers_of_maps:
  assumes "2 \<le> length defs" and "\<forall>d\<in>set defs. isMap d"
  shows "mergeResolvers md (Some defs) options = applyExclusions (foldl md (Obj []) defs) options"
  using assms
  by (simp add: mergeResolvers_many classify_foldl flatten_maps factoriesOf_maps objectsOf_maps)

lemma mergeDeep_field:
  assumes "map_of b t = Some (Obj fs)" and "map_of fs f = Some v"
    and "\<not> (isMap v \<and> (\<exists>e. fieldOf (Obj a) t f = Some e \<and> isMap e))"
  shows "fieldOf (mergeDeep (Obj a) (Obj b)) t f = Some v"
proof -
  obtain r where r: "mergeDeep (Obj a) (Obj b) = Obj r" by simp
  note at_t = map_of_mergeDeep [OF r, of t]
  show ?thesis
  proof (cases "map_of a t")
    case None
    with at_t assms(1,2) r show ?thesis by (simp add: fieldOf_def)
  next
    case (Some tv)
    show ?thesis
    proof (cases tv)
      case (Obj afs)
      obtain r2 where r2: "mergeDeep (Obj afs) (Obj fs) = Obj r2" by simp
      note at_f = map_of_mergeDeep [OF r2, of f]
      from Some Obj have earlier: "fieldOf (Obj a) t f = map_of afs f" by (simp add: fieldOf_def)
      have "map_of r2 f = Some v"
      proof (cases "map_of afs f")
        case None
        with at_f assms(2) show ?thesis by simp
      next
        case (Some e)
        with earlier assms(3) have "\<not> (isMap e \<and> isMap v)" by auto
        with at_f Some assms(2) show ?thesis by simp
      qed
      moreover from at_t Some Obj assms(1) r2 have "map_of r t = Some (Obj r2)" by simp
      ultimately show ?thesis using r by (simp add: fieldOf_def)
    qed (use at_t Some assms(1,2) r in \<open>simp_all add: fieldOf_def\<close>)
  qed
qed

lemma mergeDeep_keeps_field:
  assumes "fieldOf (Obj a) t f = Some v" and "leavesField t f d"
  shows "fieldOf (mergeDeep (Obj a) d) t f = Some v \<and> isMap (mergeDeep (Obj a) d)"
proof -
  from assms(2) obtain b where d: "d = Obj b" by (cases d) (simp_all add: leavesField_def)
  obtain r where r: "mergeDeep (Obj a) (Obj b) = Obj r" by simp
  note at_t = map_of_mergeDeep [OF r, of t]
  from assms(1) obtain afs where afs: "map_of a t = Some (Obj afs)" "map_of afs f = Some v"
    by (auto simp: fieldOf_def split: option.splits jsval.splits)
  show ?thesis
  proof (cases "map_of b t")
    case None
    with at_t afs r d show ?thesis by (simp add: fieldOf_def)
  next
    case (Some tv)
    with assms(2) d obtain fs where fs: "tv = Obj fs" "map_of fs f = None"
      by (cases tv) (simp_all add: leavesField_def)
    obtain r2 where r2: "mergeDeep (Obj afs) (Obj fs) = Obj r2" by simp
    from map_of_mergeDeep [OF r2, of f] afs(2) fs(2) have "map_of r2 f = Some v" by simp
    moreover from at_t afs(1) Some fs(1) r2 have "map_of r t = Some (Obj r2)" by simp
    ultimately show ?thesis using r d by (simp add: fieldOf_def)
  qed
qed

lemma foldl_mergeDeep_keeps_field:
  "fieldOf acc t f = Some v \<Longrightarrow> isMap acc \<Longrightarrow> list_all (leavesField t f) rest \<Longrightarrow>
   fieldOf (foldl mergeDeep acc rest) t f = Some v"
proof (induction rest arbitrary: acc)
  case Nil
  then show ?case by simp
next
  case (Cons d rest)
  from Cons.prems(2) obtain a where a: "acc = Obj a" by (cases acc) simp_all
  from Cons.prems(1,3) a have "fieldOf (mergeDeep (Obj a) d) t f = Some v \<and> isMap (mergeDeep (Obj a) d)"
    by (intro mergeDeep_keeps_field) simp_all
  with Cons.IH [of "mergeDeep acc d"] Cons.prems(3) a show ?case by simp
qed

section \<open>Definitions that are neither functions nor objects\<close>

text \<open>
  The loop of lines 62 to 71 keeps a flattened definition when its \<^verbatim>\<open>typeof\<close> is
  \<open>function\<close> or \<open>object\<close>, and does nothing with any other: \<open>undefined\<close>, a boolean,
  a number, a string. \<open>null\<close> has \<^verbatim>\<open>typeof\<close> \<open>object\<close>: it is pushed on
  \<^verbatim>\<open>resolvers\<close> and is a source of the deep merge, which merges nothing from it.
\<close>

lemma factoriesOf_recognised: "factoriesOf (filter recognised flat) = factoriesOf flat"
  by (induction flat rule: factoriesOf.induct) (simp_all add: recognised_def)

lemma objectsOf_recognised: "objectsOf (filter recognised flat) = objectsOf flat"
  by (induction flat) (auto simp: recognised_def objectsOf_def)

lemma mergeDeep_ignores: "\<not> isMap d \<Longrightarrow> mergeDeep acc d = acc"
  by (cases acc; cases d) simp_all

lemma foldl_without_null:
  assumes "\<forall>acc. md acc Null = acc"
  shows "foldl md acc (xs @ ys) = foldl md acc (filter (\<lambda>d. \<not> isNull d) xs @ ys)"
proof (induction xs arbitrary: acc)
  case Nil
  then show ?case by simp
next
  case (Cons d xs)
  then show ?case using assms by (cases d) simp_all
qed

text \<open>
  C7. With two or more definitions, a definition that after flattening is neither a
  Factory nor a Map contributes nothing to the result, and the call returns as it
  does without it.
  \<^item> Two calls, each with two or more definitions, whose flattened definitions agree
    once the values whose \<^verbatim>\<open>typeof\<close> is neither \<open>function\<close> nor \<open>object\<close> are left
    out (\<open>undefined\<close>, booleans, numbers, strings) give the same result: the loop
    drops these values.
  \<^item> \<open>null\<close> is an \<open>object\<close> for \<^verbatim>\<open>typeof\<close>: the loop keeps it, and it is a source
    of the deep merge. When the deep merge returns its target for the source \<open>null\<close>,
    as \<^verbatim>\<open>mergeDeep\<close> does, the merged result (the result of the call without
    exclusions) is the one built from the collected objects without \<open>null\<close>: with a
    Factory among the definitions the function that merges these objects and then
    what the Factories produce, and else their deep merge.
\<close>

theorem mergeResolvers_ignores_unrecognised:
  assumes "2 \<le> length defs" and "2 \<le> length defs'"
  shows "(filter recognised (map (flattenDefinition md) defs)
            = filter recognised (map (flattenDefinition md) defs')
          \<longrightarrow> mergeResolvers md (Some defs) options = mergeResolvers md (Some defs') options)
       \<and> ((\<forall>acc. md acc Null = acc) \<longrightarrow>
            mergeResolvers md (Some defs) None =
              (if factoriesOf (map (flattenDefinition md) defs) \<noteq> [] then
                 Fun (\<lambda>args s.
                   case invokeAll (factoriesOf (map (flattenDefinition md) defs)) args s of
                     (produced, s') \<Rightarrow>
                       (foldl md (Obj [])
                          (filter (\<lambda>d. \<not> isNull d)
                             (objectsOf (map (flattenDefinition md) defs)) @ produced), s'))
               else foldl md (Obj [])
                      (filter (\<lambda>d. \<not> isNull d) (objectsOf (map (flattenDefinition md) defs)))))"
proof (intro conjI impI)
  assume same: "filter recognised (map (flattenDefinition md) defs)
                  = filter recognised (map (flattenDefinition md) defs')"
  have "factoriesOf (map (flattenDefinition md) defs)
          = factoriesOf (map (flattenDefinition md) defs')"
    using same factoriesOf_recognised by metis
  moreover have "objectsOf (map (flattenDefinition md) defs)
                   = objectsOf (map (flattenDefinition md) defs')"
    using same objectsOf_recognised by metis
  ultimately show "mergeResolvers md (Some defs) options = mergeResolvers md (Some defs') options"
    using assms by (simp add: mergeResolvers_many classify_foldl)
next
  assume ignores: "\<forall>acc. md acc Null = acc"
  let ?flat = "map (flattenDefinition md) defs"
  note without = foldl_without_null [where md = md, OF ignores]
  have direct: "foldl md (Obj []) (objectsOf ?flat)
                  = foldl md (Obj []) (filter (\<lambda>d. \<not> isNull d) (objectsOf ?flat))"
    using without [of "Obj []" "objectsOf ?flat" "[]"] by simp
  have called: "foldl md (Obj []) (objectsOf ?flat @ produced)
                  = foldl md (Obj []) (filter (\<lambda>d. \<not> isNull d) (objectsOf ?flat) @ produced)"
    for produced
    by (rule without)
  have none: "applyExclusions r None = r" for r :: "('a, 'b) jsval"
    by (simp add: applyExclusions_def)
  show "mergeResolvers md (Some defs) None =
           (if factoriesOf ?flat \<noteq> [] then
              Fun (\<lambda>args s.
                case invokeAll (factoriesOf ?flat) args s of
                  (produced, s') \<Rightarrow>
                    (foldl md (Obj [])
                       (filter (\<lambda>d. \<not> isNull d) (objectsOf ?flat) @ produced), s'))
            else foldl md (Obj []) (filter (\<lambda>d. \<not> isNull d) (objectsOf ?flat)))"
    using assms(1)
    by (simp only: mergeResolvers_many classify_foldl append_Nil called direct [symmetric]
        prod.case none)
qed

theorem mergeResolvers_ignores_unrecognised_witness:
  "mergeResolvers mergeDeep
     (Some [Obj [(''A'', Obj [(''x'', Num 1)])], Num 5, Str ''s'', Undefined, Bool True,
            Obj [(''B'', Obj [(''y'', Num 2)])] :: (unit, unit) jsval]) None
   = mergeResolvers mergeDeep
     (Some [Obj [(''A'', Obj [(''x'', Num 1)])], Obj [(''B'', Obj [(''y'', Num 2)])]]) None
   \<and> (\<forall>acc :: (unit, unit) jsval. mergeDeep acc Null = acc)
   \<and> mergeResolvers mergeDeep
     (Some [Obj [(''A'', Obj [(''x'', Num 1)])], Null, Num 5,
            Obj [(''B'', Obj [(''y'', Num 2)])] :: (unit, unit) jsval]) None
   = Obj [(''A'', Obj [(''x'', Num 1)]), (''B'', Obj [(''y'', Num 2)])]
   \<and> mergeResolvers mergeDeep (Some [Null, Num 1 :: (unit, unit) jsval]) None = Obj []"
proof (intro conjI)
  let ?A = "Obj [(''A'', Obj [(''x'', Num 1)])] :: (unit, unit) jsval"
  let ?B = "Obj [(''B'', Obj [(''y'', Num 2)])] :: (unit, unit) jsval"
  have many: "2 \<le> length [?A, Num 5, Str ''s'', Undefined, Bool True, ?B]" by simp
  have two: "2 \<le> length [?A, ?B]" by simp
  show "mergeResolvers mergeDeep (Some [?A, Num 5, Str ''s'', Undefined, Bool True, ?B]) None
          = mergeResolvers mergeDeep (Some [?A, ?B]) None"
    by (rule mergeResolvers_ignores_unrecognised [OF many two, THEN conjunct1, THEN mp])
      (simp add: flattenDefinition_def recognised_def)
  show ignores: "\<forall>acc :: (unit, unit) jsval. mergeDeep acc Null = acc"
    by (simp add: mergeDeep_ignores)
  have four: "2 \<le> length [?A, Null, Num 5, ?B]" by simp
  show "mergeResolvers mergeDeep (Some [?A, Null, Num 5, ?B]) None
          = Obj [(''A'', Obj [(''x'', Num 1)]), (''B'', Obj [(''y'', Num 2)])]"
    by (subst mergeResolvers_ignores_unrecognised
        [where md = mergeDeep and options = None, OF four four, THEN conjunct2, THEN mp, OF ignores])
      (simp add: flattenDefinition_def objectsOf_def)
  have nulls: "2 \<le> length [Null, Num 1 :: (unit, unit) jsval]" by simp
  show "mergeResolvers mergeDeep (Some [Null, Num 1 :: (unit, unit) jsval]) None = Obj []"
    by (subst mergeResolvers_ignores_unrecognised
        [where md = mergeDeep and options = None, OF nulls nulls, THEN conjunct2, THEN mp, OF ignores])
      (simp add: flattenDefinition_def objectsOf_def)
qed

section \<open>Later definitions win\<close>

text \<open>
  C2, as the claim states it, lets the later definition's field value override the
  earlier one on every key collision, and calls the deep merge of the Maps the result
  of every such call. Deep merge combines two Maps under the same key instead of
  replacing the earlier by the later: below, the field \<open>T.f\<close> of the result holds the
  keys of both definitions. And when the options give exclusions, the value returned is
  the deep merge with the excluded entries taken out.
\<close>

theorem later_map_is_merged:
  "mergeResolvers mergeDeep
     (Some [Obj [(''T'', Obj [(''f'', Obj [(''a'', Num 1)])])],
            Obj [(''T'', Obj [(''f'', Obj [(''b'', Num 2)])])] :: (unit, unit) jsval]) None
   = Obj [(''T'', Obj [(''f'', Obj [(''a'', Num 1), (''b'', Num 2)])])]
   \<and> foldl mergeDeep (Obj [])
        [Obj [(''A'', Obj [(''x'', Num 1)])], Obj [(''B'', Obj [(''y'', Num 2)])] :: (unit, unit) jsval]
      = Obj [(''A'', Obj [(''x'', Num 1)]), (''B'', Obj [(''y'', Num 2)])]
   \<and> mergeResolvers mergeDeep
        (Some [Obj [(''A'', Obj [(''x'', Num 1)])], Obj [(''B'', Obj [(''y'', Num 2)])]
               :: (unit, unit) jsval])
        (Some \<lparr>exclusions = Some [''A'']\<rparr>)
      = Obj [(''B'', Obj [(''y'', Num 2)])]"
  by (simp add: classify_def applyExclusions_def applyExclusion_def)

text \<open>
  C2, amended. With two or more definitions that are all Maps (so no Factory), the
  merged result, to which the exclusions of the options (if any) are then applied, is
  the deep merge of the Maps from left to right, starting from the empty Map. On a key
  collision the later definition wins: when \<open>later\<close> is the last definition that gives
  the field \<open>t.f\<close> a value, \<open>v\<close>, the result holds \<open>v\<close> at \<open>t.f\<close>, whatever the earlier
  definitions hold there -- unless \<open>v\<close> and the value merged so far are both Maps,
  which deep merge combines key by key. The witness is the example
  \<^verbatim>\<open>mergeResolvers([{Type:{f:1}}, {Type:{f:2}}])\<close>, which yields \<^verbatim>\<open>{Type:{f:2}}\<close>.
\<close>

theorem mergeResolvers_later_wins:
  assumes "2 \<le> length defs" and "\<forall>d\<in>set defs. isMap d"
  shows "mergeResolvers md (Some defs) options = applyExclusions (foldl md (Obj []) defs) options
       \<and> mergeResolvers md (Some defs) None = foldl md (Obj []) defs
       \<and> (defs = earlier @ [Obj later] @ rest \<and> list_all (leavesField t f) rest
            \<and> map_of later t = Some (Obj fs) \<and> map_of fs f = Some v
            \<and> \<not> (isMap v \<and> (\<exists>e. fieldOf (foldl mergeDeep (Obj []) earlier) t f = Some e \<and> isMap e))
            \<longrightarrow> fieldOf (mergeResolvers mergeDeep (Some defs) None) t f = Some v)"
proof (intro conjI impI)
  show "mergeResolvers md (Some defs) options = applyExclusions (foldl md (Obj []) defs) options"
    using assms by (rule mergeResolvers_of_maps)
  show "mergeResolvers md (Some defs) None = foldl md (Obj []) defs"
    using assms by (simp add: mergeResolvers_of_maps applyExclusions_def)
next
  assume h: "defs = earlier @ [Obj later] @ rest \<and> list_all (leavesField t f) rest
            \<and> map_of later t = Some (Obj fs) \<and> map_of fs f = Some v
            \<and> \<not> (isMap v \<and> (\<exists>e. fieldOf (foldl mergeDeep (Obj []) earlier) t f = Some e \<and> isMap e))"
  from assms(2) h have "\<forall>d\<in>set earlier. isMap d" by simp
  then have "isMap (foldl mergeDeep (Obj []) earlier)" by (simp add: foldl_mergeDeep_isMap)
  then obtain a where a: "foldl mergeDeep (Obj []) earlier = Obj a"
    by (cases "foldl mergeDeep (Obj []) earlier") simp_all
  have here: "fieldOf (mergeDeep (Obj a) (Obj later)) t f = Some v"
    using h a by (intro mergeDeep_field [of later t fs f v a]) simp_all
  have "mergeResolvers mergeDeep (Some defs) None
          = foldl mergeDeep (mergeDeep (Obj a) (Obj later)) rest"
    using assms h a by (simp add: mergeResolvers_of_maps applyExclusions_def)
  moreover have "fieldOf (foldl mergeDeep (mergeDeep (Obj a) (Obj later)) rest) t f = Some v"
    using here h by (intro foldl_mergeDeep_keeps_field) (simp_all add: mergeDeep_isMap)
  ultimately show "fieldOf (mergeResolvers mergeDeep (Some defs) None) t f = Some v" by simp
qed

theorem mergeResolvers_later_wins_witness:
  "mergeResolvers mergeDeep
     (Some [Obj [(''Type'', Obj [(''f'', Num 1)])], Obj [(''Type'', Obj [(''f'', Num 2)])]
            :: (unit, unit) jsval]) None
   = Obj [(''Type'', Obj [(''f'', Num 2)])]
   \<and> fieldOf (mergeResolvers mergeDeep
        (Some [Obj [(''Type'', Obj [(''f'', Num 1)])], Obj [(''Type'', Obj [(''f'', Num 2)])]
               :: (unit, unit) jsval]) None) ''Type'' ''f'' = Some (Num 2)"
proof -
  let ?defs = "[Obj [(''Type'', Obj [(''f'', Num 1)])], Obj [(''Type'', Obj [(''f'', Num 2)])]
               :: (unit, unit) jsval]"
  have two: "2 \<le> length ?defs" by simp
  have maps: "\<forall>d\<in>set ?defs. isMap d" by simp
  note th = mergeResolvers_later_wins [OF two maps, of mergeDeep None
      "[Obj [(''Type'', Obj [(''f'', Num 1)])]]" "[(''Type'', Obj [(''f'', Num 2)])]" "[]"
      "''Type''" "''f''" "[(''f'', Num 2)]" "Num 2"]
  from th have "mergeResolvers mergeDeep (Some ?defs) None = foldl mergeDeep (Obj []) ?defs"
    by (rule conjunct2 [THEN conjunct1])
  then have first: "mergeResolvers mergeDeep (Some ?defs) None = Obj [(''Type'', Obj [(''f'', Num 2)])]"
    by simp
  from th have second: "fieldOf (mergeResolvers mergeDeep (Some ?defs) None) ''Type'' ''f'' = Some (Num 2)"
    by (rule conjunct2 [THEN conjunct2, THEN mp]) simp
  from first second show ?thesis by (rule conjI)
qed

text \<open>
  C8. For every Map \<open>R\<close> (well-formed: no key twice), \<^verbatim>\<open>mergeResolvers([R, R])\<close> is
  \<open>R\<close>: merging a Map with itself changes nothing.
\<close>

theorem mergeResolvers_idempotent:
  assumes "wellFormed (Obj r)"
  shows "mergeResolvers mergeDeep (Some [Obj r, Obj r]) None = Obj r"
proof -
  have "mergeDeep (Obj r) (Obj r) = Obj r"
    using assms by (rule mergeDeep_self)
  moreover have "mergeResolvers mergeDeep (Some [Obj r, Obj r]) None
                   = mergeDeep (mergeDeep (Obj []) (Obj r)) (Obj r)"
    by (simp add: classify_def applyExclusions_def)
  ultimately show ?thesis by (simp only: mergeDeep_empty)
qed

theorem mergeResolvers_idempotent_witness:
  "wellFormed (Obj [(''A'', Obj [(''x'', Num 1), (''y'', Obj [(''z'', Str ''s'')])]), (''B'', Obj [])]
                :: (unit, unit) jsval)
   \<and> mergeResolvers mergeDeep
        (Some [Obj [(''A'', Obj [(''x'', Num 1), (''y'', Obj [(''z'', Str ''s'')])]), (''B'', Obj [])],
               Obj [(''A'', Obj [(''x'', Num 1), (''y'', Obj [(''z'', Str ''s'')])]), (''B'', Obj [])]
               :: (unit, unit) jsval]) None
      = Obj [(''A'', Obj [(''x'', Num 1), (''y'', Obj [(''z'', Str ''s'')])]), (''B'', Obj [])]"
proof -
  have wf: "wellFormed (Obj [(''A'', Obj [(''x'', Num 1), (''y'', Obj [(''z'', Str ''s'')])]),
                            (''B'', Obj [])] :: (unit, unit) jsval)"
    by simp
  from wf mergeResolvers_idempotent [OF wf] show ?thesis by (rule conjI)
qed

section \<open>Termination\<close>

text \<open>
  C10. \<^verbatim>\<open>mergeResolvers\<close> terminates on every sequence of definitions (the values of
  the model are finite trees, so no array is reachable from itself): every argument is
  in the domain of the recursion, and each recursive call, on the contents of a Group
  among the definitions, is on a sequence with fewer arrays.
\<close>

theorem mergeResolvers_terminates:
  "mergeResolvers_dom (md, defs, options)
   \<and> (defs = Some ds \<and> Arr nested \<in> set ds \<longrightarrow> nesting nested < nesting ds)"
proof (intro conjI impI)
  show "mergeResolvers_dom (md, defs, options)" by (rule mergeResolvers_total)
next
  assume "defs = Some ds \<and> Arr nested \<in> set ds"
  then have "Arr nested \<in> set ds" by simp
  then have "arrays (Arr nested) \<le> nesting ds" by (rule arrays_le_nesting)
  then show "nesting nested < nesting ds" by (simp add: nesting_def)
qed

theorem mergeResolvers_terminates_witness:
  "mergeResolvers_dom (mergeDeep, Some [Arr [Arr [Obj []], Null], Num 1 :: (unit, unit) jsval], None)
   \<and> nesting [Arr [Obj []], Null :: (unit, unit) jsval] < nesting [Arr [Arr [Obj []], Null], Num 1]"
  using mergeResolvers_terminates
    [of mergeDeep "Some [Arr [Arr [Obj []], Null], Num 1 :: (unit, unit) jsval]" None
        "[Arr [Arr [Obj []], Null], Num 1]" "[Arr [Obj []], Null]"]
  by (simp add: nesting_def)

section \<open>Inputs and the store\<close>

text \<open>
  The merge itself writes into no object that was there before: it only puts new
  objects at the end of the store.
\<close>

lemma alloc_extends: "alloc h obj = (h', v) \<Longrightarrow> take (length h) h' = h \<and> length h \<le> length h'"
  by (auto simp: alloc_def)

lemma extends_trans:
  assumes "take (length h) h1 = h \<and> length h \<le> length h1"
    and "take (length h1) h2 = h1 \<and> length h1 \<le> length h2"
  shows "take (length h) h2 = h \<and> length h \<le> length h2"
proof -
  from assms have "take (length h) (take (length h1) h2) = h" by simp
  then have "take (min (length h) (length h1)) h2 = h" by (simp only: take_take)
  with assms show ?thesis by (simp add: min_def)
qed

lemma merge_only_allocates:
  "mergeDeepH n h target source = Some (h', v) \<Longrightarrow>
     take (length h) h' = h \<and> length h \<le> length h'"
  "mergePropertiesH n h t s = Some (h', ps) \<Longrightarrow>
     take (length h) h' = h \<and> length h \<le> length h'"
proof (induction n h target source and n h t s arbitrary: h' v and h' ps
    rule: mergeDeepH_mergePropertiesH.induct)
  case (1 h target source)
  then show ?case by simp
next
  case (2 n h target source)
  note run = "2.prems"
  show ?case
  proof (cases "objectAt h target")
    case None
    with run show ?thesis by (simp split: option.splits)
  next
    case (Some t)
    note target = this
    show ?thesis
    proof (cases "objectAt h source")
      case None
      with run target show ?thesis by simp
    next
      case (Some s)
      show ?thesis
      proof (cases "mergePropertiesH n h t s")
        case None
        with run target Some show ?thesis by simp
      next
        case inner: (Some r)
        obtain h1 merged where r: "r = (h1, merged)" by (cases r)
        from run target Some inner r
        have new: "alloc h1 (merged @ filter (\<lambda>kv. map_of t (fst kv) = None) s) = (h', v)"
          by simp
        from inner r have "mergePropertiesH n h t s = Some (h1, merged)" by simp
        then have "take (length h) h1 = h \<and> length h \<le> length h1"
          by (rule "2.IH" [OF Some target])
        moreover from new have "take (length h1) h' = h1 \<and> length h1 \<le> length h'"
          by (rule alloc_extends)
        ultimately show ?thesis by (rule extends_trans)
      qed
    qed
  qed
next
  case (3 n h s)
  then show ?case by simp
next
  case (4 n h kv rest s)
  note run = "4.prems"
  let ?first = "case map_of s (fst kv) of None \<Rightarrow> Some (h, snd kv)
                | Some sv \<Rightarrow>
                    if objectAt h (snd kv) \<noteq> None \<and> objectAt h sv \<noteq> None
                    then mergeDeepH n h (snd kv) sv
                    else Some (h, sv)"
  show ?case
  proof (cases ?first)
    case None
    with run show ?thesis by simp
  next
    case (Some r)
    obtain h1 v1 where r: "r = (h1, v1)" by (cases r)
    show ?thesis
    proof (cases "mergePropertiesH n h1 rest s")
      case None
      with run Some r show ?thesis by simp
    next
      case tail: (Some q)
      obtain h2 merged where q: "q = (h2, merged)" by (cases q)
      from run Some r tail q have h2: "h2 = h'" by simp
      have "take (length h) h1 = h \<and> length h \<le> length h1"
      proof (cases "map_of s (fst kv)")
        case None
        with Some r show ?thesis by simp
      next
        case present: (Some sv)
        show ?thesis
        proof (cases "objectAt h (snd kv) \<noteq> None \<and> objectAt h sv \<noteq> None")
          case True
          with Some r present have "mergeDeepH n h (snd kv) sv = Some (h1, v1)" by simp
          then show ?thesis by (rule "4.IH"(1) [OF present True])
        next
          case False
          with Some r present show ?thesis by auto
        qed
      qed
      moreover from tail q h2 have "mergePropertiesH n h1 rest s = Some (h', merged)" by simp
      then have "take (length h1) h' = h1 \<and> length h1 \<le> length h'"
        by (rule "4.IH"(2) [OF Some r [symmetric]])
      ultimately show ?thesis by (rule extends_trans)
    qed
  qed
qed

lemma reduce_only_allocates:
  "reduceH n h acc ds = Some (h', v) \<Longrightarrow> take (length h) h' = h \<and> length h \<le> length h'"
proof (induction ds arbitrary: h acc)
  case Nil
  then show ?case by simp
next
  case (Cons d ds)
  show ?case
  proof (cases "mergeDeepH n h acc d")
    case None
    with Cons.prems show ?thesis by simp
  next
    case (Some r)
    obtain h1 acc1 where r: "r = (h1, acc1)" by (cases r)
    from Some r have "take (length h) h1 = h \<and> length h \<le> length h1"
      by (simp add: merge_only_allocates(1))
    moreover from Cons.prems Some r have "reduceH n h1 acc1 ds = Some (h', v)" by simp
    then have "take (length h1) h' = h1 \<and> length h1 \<le> length h'" by (rule Cons.IH)
    ultimately show ?thesis by (rule extends_trans)
  qed
qed

lemma mergeResolversH_without_exclusions:
  assumes "mergeResolversH n h defs None = Some (h', v)"
  shows "take (length h) h' = h"
proof (cases defs)
  case None
  with assms show ?thesis by (auto simp: alloc_def)
next
  case (Some ds)
  show ?thesis
  proof (cases ds)
    case Nil
    with assms Some show ?thesis by (auto simp: alloc_def)
  next
    case (Cons d1 rest)
    note outer = this
    show ?thesis
    proof (cases rest)
      case Nil
      with assms Some outer show ?thesis by simp
    next
      case (Cons d2 ds')
      let ?kept = "filter (\<lambda>d. typeofH d = ''object'') (d1 # d2 # ds')"
      from assms Some outer Cons
      have run: "(case reduceH n (h @ [[]]) (HRef (length h)) ?kept of
                    None \<Rightarrow> None
                  | Some (h1, result) \<Rightarrow> Some (applyExclusionsH result h1 None, result))
                 = Some (h', v)"
        by (simp add: alloc_def del: filter.simps)
      have "reduceH n (h @ [[]]) (HRef (length h)) ?kept = Some (h', v)"
      proof (cases "reduceH n (h @ [[]]) (HRef (length h)) ?kept")
        case None
        with run show ?thesis by simp
      next
        case (Some r)
        with run show ?thesis by (cases r) (simp add: applyExclusionsH_def)
      qed
      then have "take (length (h @ [[]])) h' = h @ [[]] \<and> length (h @ [[]]) \<le> length h'"
        by (rule reduce_only_allocates)
      moreover have "take (length h) (h @ [[]]) = h \<and> length h \<le> length (h @ [[]])" by simp
      ultimately show ?thesis using extends_trans by blast
    qed
  qed
qed

text \<open>
  So a value that reads as a tree before a call without exclusions reads as the same
  tree after it.
\<close>

lemma objectAt_extended:
  assumes "take (length h) h' = h" and "objectAt h v = Some props"
  shows "objectAt h' v = Some props"
proof (cases v)
  case (HRef a)
  with assms(2) have a: "a < length h" "props = h ! a" by (auto split: if_splits)
  have "length (take (length h) h') = length h" by (simp only: assms(1))
  then have le: "length h \<le> length h'" by simp
  have "take (length h) h' ! a = h' ! a" using a(1) by (rule nth_take)
  then have "h ! a = h' ! a" by (simp only: assms(1))
  with a le HRef show ?thesis by simp
qed (use assms(2) in simp_all)

lemma read_extended:
  assumes "take (length h) h' = h"
  shows "readH n h v = Some (x :: (unit, unit) jsval) \<Longrightarrow> readH n h' v = Some x"
    and "readPropertiesH n h props = Some (xs :: (string \<times> (unit, unit) jsval) list) \<Longrightarrow>
         readPropertiesH n h' props = Some xs"
  using assms
proof (induction n h v and n h props arbitrary: x and xs rule: readH_readPropertiesH.induct)
  case (7 n h a)
  note ext = "7.prems"(2)
  show ?case
  proof (cases "objectAt h (HRef a)")
    case None
    with "7.prems"(1) show ?thesis by simp
  next
    case (Some props)
    from ext Some have same: "objectAt h' (HRef a) = Some props" by (rule objectAt_extended)
    show ?thesis
    proof (cases "readPropertiesH n h props :: (string \<times> (unit, unit) jsval) list option")
      case None
      with "7.prems"(1) Some show ?thesis by simp
    next
      case inner: (Some ps)
      from "7.IH" [OF Some inner ext] have "readPropertiesH n h' props = Some ps" .
      with "7.prems"(1) Some inner same show ?thesis by simp
    qed
  qed
next
  case (9 n h kv rest)
  note ext = "9.prems"(2)
  show ?case
  proof (cases "readH n h (snd kv) :: (unit, unit) jsval option")
    case None
    with "9.prems"(1) show ?thesis by simp
  next
    case (Some v)
    show ?thesis
    proof (cases "readPropertiesH n h rest :: (string \<times> (unit, unit) jsval) list option")
      case None
      with "9.prems"(1) Some show ?thesis by simp
    next
      case tail: (Some vs)
      from "9.IH"(1) [OF Some ext] have "readH n h' (snd kv) = Some v" .
      moreover from "9.IH"(2) [OF Some tail ext] have "readPropertiesH n h' rest = Some vs" .
      ultimately show ?thesis using "9.prems"(1) Some tail by simp
    qed
  qed
qed simp_all

lemma mergeResolversH_keeps_inputs:
  assumes "mergeResolversH n h defs None = Some (h', v)" and "readH k h d = Some x"
  shows "readH k h' d = Some x"
  using mergeResolversH_without_exclusions [OF assms(1)] assms(2) by (rule read_extended(1))

text \<open>
  C6 says that no input definition, nested field mappings included, is changed by a
  call, also when exclusions are given. In the store below, the definitions are the
  objects 1, \<^verbatim>\<open>{A: {x: 1, y: 2}}\<close>, and 3, \<^verbatim>\<open>{B: {y: 2}}\<close>. The type \<open>A\<close> comes from one
  definition only, so the result (object 6) refers under \<open>A\<close> to the very object 0 of
  the first definition, and \<^verbatim>\<open>delete result['A']['y']\<close> for the exclusion \<open>A.y\<close>
  takes \<open>y\<close> out of it: the first definition reads \<^verbatim>\<open>{A: {x: 1, y: 2}}\<close> before the
  call and \<^verbatim>\<open>{A: {x: 1}}\<close> after it; the result reads \<^verbatim>\<open>{A: {x: 1}, B: {y: 2}}\<close>.
\<close>

theorem exclusion_writes_into_input:
  "mergeResolversH 2
     [[(''x'', HNum 1), (''y'', HNum 2)], [(''A'', HRef 0)], [(''y'', HNum 2)], [(''B'', HRef 2)]]
     (Some [HRef 1, HRef 3]) (Some \<lparr>exclusions = Some [''A.y'']\<rparr>)
   = Some ([[(''x'', HNum 1)], [(''A'', HRef 0)], [(''y'', HNum 2)], [(''B'', HRef 2)],
            [], [(''A'', HRef 0)], [(''A'', HRef 0), (''B'', HRef 2)]], HRef 6)
   \<and> readH 3
        [[(''x'', HNum 1), (''y'', HNum 2)], [(''A'', HRef 0)], [(''y'', HNum 2)], [(''B'', HRef 2)]]
        (HRef 1)
      = Some (Obj [(''A'', Obj [(''x'', Num 1), (''y'', Num 2)])])
   \<and> readH 3
        [[(''x'', HNum 1)], [(''A'', HRef 0)], [(''y'', HNum 2)], [(''B'', HRef 2)],
         [], [(''A'', HRef 0)], [(''A'', HRef 0), (''B'', HRef 2)]]
        (HRef 1)
      = Some (Obj [(''A'', Obj [(''x'', Num 1)])])
   \<and> readH 3
        [[(''x'', HNum 1)], [(''A'', HRef 0)], [(''y'', HNum 2)], [(''B'', HRef 2)],
         [], [(''A'', HRef 0)], [(''A'', HRef 0), (''B'', HRef 2)]]
        (HRef 6)
      = Some (Obj [(''A'', Obj [(''x'', Num 1)]), (''B'', Obj [(''y'', Num 2)])])"
  by (simp add: alloc_def applyExclusionsH_def applyExclusionH_def getPropertyH_def
      numeral_2_eq_2 numeral_3_eq_3)

text \<open>The result above reads as the tree that the model on trees gives for this call.\<close>

lemma store_result_is_tree_result:
  "mergeResolvers mergeDeep
     (Some [Obj [(''A'', Obj [(''x'', Num 1), (''y'', Num 2)])], Obj [(''B'', Obj [(''y'', Num 2)])]
            :: (unit, unit) jsval])
     (Some \<lparr>exclusions = Some [''A.y'']\<rparr>)
   = Obj [(''A'', Obj [(''x'', Num 1)]), (''B'', Obj [(''y'', Num 2)])]"
  by (simp add: classify_def applyExclusions_def applyExclusion_def)

text \<open>
  When the type comes from two definitions, its entry in the result is a new object
  (6 below), and the same exclusion leaves the four objects of the input as they were.
\<close>

lemma exclusion_after_merge:
  "mergeResolversH 3
     [[(''x'', HNum 1), (''y'', HNum 2)], [(''A'', HRef 0)], [(''z'', HNum 3)], [(''A'', HRef 2)]]
     (Some [HRef 1, HRef 3]) (Some \<lparr>exclusions = Some [''A.y'']\<rparr>)
   = Some ([[(''x'', HNum 1), (''y'', HNum 2)], [(''A'', HRef 0)], [(''z'', HNum 3)], [(''A'', HRef 2)],
            [], [(''A'', HRef 0)], [(''x'', HNum 1), (''z'', HNum 3)], [(''A'', HRef 6)]], HRef 7)"
  by (simp add: alloc_def applyExclusionsH_def applyExclusionH_def getPropertyH_def numeral_3_eq_3)

section \<open>The function on the store\<close>





subsection \<open>The loop of lines 62 to 71\<close>


text \<open>
  Without a Group among the definitions the loop calls nothing, and the bound plays no
  role. With Groups, the bound only bounds: what the function returns with \<open>n\<close>
  levels, it returns with more.
\<close>

lemma flattenO_without_groups:
  "\<forall>d\<in>set defs. elementsAt h d = None \<Longrightarrow>
   flattenO R md n h defs = Returns (h, map (\<lambda>d. (d, typeofO h d)) defs)"
  by (induction defs) simp_all

lemma mergeResolversO_more_levels:
  "mergeResolversO R md n h defs options = Returns r \<Longrightarrow>
     mergeResolversO R md (Suc n) h defs options = Returns r"
  "collectO R md n h ds fs rs = Returns r' \<Longrightarrow>
     collectO R md (Suc n) h ds fs rs = Returns r'"
proof (induction R md n h defs options and R md n h ds fs rs arbitrary: r and r'
    rule: mergeResolversO_collectO.induct)
  case (1 R md h defs options)
  then show ?case by simp
next
  case (2 R md n h options)
  then show ?case by simp
next
  case (3 R md n h options)
  then show ?case by simp
next
  case (4 R md n h singleDefinition options)
  then show ?case by (auto split: option.splits)
next
  case (5 R md n h d1 d2 ds options)
  from "5.prems" obtain c where c: "collectO R md n h (d1 # d2 # ds) [] [] = Returns c"
    by (auto split: outcome.splits)
  from "5.IH" [OF c] have "collectO R md (Suc n) h (d1 # d2 # ds) [] [] = Returns c" .
  with "5.prems" c show ?case by simp
next
  case (6 R md n h fs rs)
  then show ?case by simp
next
  case (7 R md n h d rest fs rs)
  show ?case
  proof (cases "elementsAt h d")
    case None
    with "7.prems" "7.IH"(2-) show ?thesis
      by (auto split: if_splits)
  next
    case (Some nested)
    with "7.prems" obtain h1 fl where
      step: "mergeResolversO R md n h (Some nested) None = Returns (h1, fl)"
      by (auto split: outcome.splits)
    from "7.IH"(1) [OF Some step]
    have step': "mergeResolversO R md (Suc n) h (Some nested) None = Returns (h1, fl)" .
    from "7.prems" Some step "7.IH"(2-) step' show ?thesis
      by (auto split: if_splits)
  qed
qed

subsection \<open>Calls of the collected factories\<close>


subsection \<open>Exclusions and the function of line 74\<close>









section \<open>Factories\<close>




section \<open>Exclusions on the store\<close>




text \<open>
  What the loop does where the result is not a tree of plain objects, each held once.
  \<^item> A string under a type: for \<^verbatim>\<open>[{A: 'abc'}, {B: {y: 2}}]\<close> the exclusion \<open>A.length\<close>
    throws, and so does \<open>A.2\<close>; \<open>A.3\<close> and \<open>A.x\<close> do nothing.
  \<^item> An inherited property: for \<^verbatim>\<open>[{A: {x: 1, y: 2}}, {B: {y: 2}}]\<close> the exclusion
    \<open>constructor.prototype\<close> finds \<^verbatim>\<open>Object\<close> and throws; \<open>toString.name\<close> takes the
    \<^verbatim>\<open>name\<close> of \<^verbatim>\<open>Object.prototype.toString\<close> (object 7) and leaves the result alone.
  \<^item> An object held twice: with the object 8, \<^verbatim>\<open>{x: 1}\<close>, under \<open>A\<close> of one definition
    and under \<open>B\<close> of the other, the exclusion \<open>A.x\<close> empties the object 8, which the
    result holds under \<open>A\<close> and under \<open>B\<close>.
  \<^item> An array under a type: for \<^verbatim>\<open>[{A: [1, 2]}, {B: 0}]\<close> the exclusion \<open>A.0\<close> leaves
    a hole in the array, and \<open>A.length\<close> throws.
\<close>

lemma exclusion_in_string:
  "mergeResolversO standardRealm (mergeDeepO standardRealm 3) 1
     (standardObjects @ [plain [(''A'', HStr ''abc'')], plain [(''y'', HNum 2)], plain [(''B'', HRef 9)]])
     (Some [HRef 8, HRef 10]) (Some \<lparr>exclusions = Some [''A.length'']\<rparr>)
   = Throws TypeError
   \<and> mergeResolversO standardRealm (mergeDeepO standardRealm 3) 1
     (standardObjects @ [plain [(''A'', HStr ''abc'')], plain [(''y'', HNum 2)], plain [(''B'', HRef 9)]])
     (Some [HRef 8, HRef 10]) (Some \<lparr>exclusions = Some [''A.2'']\<rparr>)
   = Throws TypeError
   \<and> mergeResolversO standardRealm (mergeDeepO standardRealm 3) 1
     (standardObjects @ [plain [(''A'', HStr ''abc'')], plain [(''y'', HNum 2)], plain [(''B'', HRef 9)]])
     (Some [HRef 8, HRef 10]) (Some \<lparr>exclusions = Some [''A.3'', ''A.x'']\<rparr>)
   = mergeResolversO standardRealm (mergeDeepO standardRealm 3) 1
     (standardObjects @ [plain [(''A'', HStr ''abc'')], plain [(''y'', HNum 2)], plain [(''B'', HRef 9)]])
     (Some [HRef 8, HRef 10]) None"
  by code_simp

lemma exclusion_of_inherited:
  "mergeResolversO standardRealm (mergeDeepO standardRealm 3) 1 exampleMaps
     (Some [HRef 9, HRef 11]) (Some \<lparr>exclusions = Some [''constructor.prototype'']\<rparr>)
   = Throws TypeError
   \<and> mergeResolversO standardRealm (mergeDeepO standardRealm 3) 1 exampleMaps
     (Some [HRef 9, HRef 11]) (Some \<lparr>exclusions = Some [''toString.name'']\<rparr>)
   = Returns ((exampleMaps
               @ [plain [], plain [], plain [(''A'', HRef 8)],
                  plain [(''A'', HRef 8), (''B'', HRef 10)]])
              [7 := \<lparr>kind = Function, ownProps = [(''length'', dataProperty (HNum 0))],
                     proto = HRef 1\<rparr>],
              HRef 15)"
  by code_simp

lemma exclusion_in_shared_object:
  "mergeResolversO standardRealm (mergeDeepO standardRealm 3) 1
     (standardObjects @ [plain [(''x'', HNum 1)], plain [(''A'', HRef 8)], plain [(''B'', HRef 8)]])
     (Some [HRef 9, HRef 10]) (Some \<lparr>exclusions = Some [''A.x'']\<rparr>)
   = Returns (standardObjects
              @ [plain [], plain [(''A'', HRef 8)], plain [(''B'', HRef 8)],
                 plain [], plain [], plain [(''A'', HRef 8)],
                 plain [(''A'', HRef 8), (''B'', HRef 8)]],
              HRef 14)"
  by code_simp

lemma exclusion_in_array:
  "mergeResolversO standardRealm (mergeDeepO standardRealm 3) 1
     (standardObjects
      @ [\<lparr>kind = Array [Some (HNum 1), Some (HNum 2)], ownProps = [], proto = HNull\<rparr>,
         plain [(''A'', HRef 8)], plain [(''B'', HNum 0)]])
     (Some [HRef 9, HRef 10]) (Some \<lparr>exclusions = Some [''A.0'']\<rparr>)
   = Returns (standardObjects
              @ [\<lparr>kind = Array [None, Some (HNum 2)], ownProps = [], proto = HNull\<rparr>,
                 plain [(''A'', HRef 8)], plain [(''B'', HNum 0)],
                 plain [], plain [], plain [(''A'', HRef 8)],
                 plain [(''A'', HRef 8), (''B'', HNum 0)]],
              HRef 14)
   \<and> mergeResolversO standardRealm (mergeDeepO standardRealm 3) 1
     (standardObjects
      @ [\<lparr>kind = Array [Some (HNum 1), Some (HNum 2)], ownProps = [], proto = HNull\<rparr>,
         plain [(''A'', HRef 8)], plain [(''B'', HNum 0)]])
     (Some [HRef 9, HRef 10]) (Some \<lparr>exclusions = Some [''A.length'']\<rparr>)
   = Throws TypeError"
  by code_simp

end
